theory Spec2Isabelle
  imports Complex_Main "HOL-Library.AList"
begin

section \<open>Python strings\<close>

text \<open>
  A Python \<open>str\<close> is modelled as a \<open>string\<close> whose characters are read as 7-bit
  ASCII code points. Characters from 128 on stand for themselves: they are neither
  whitespace nor letters nor digits in this model.
\<close>

text \<open>\<open>str.isspace\<close> on one ASCII character, as used by \<open>str.strip()\<close>.\<close>

definition isspace :: "char \<Rightarrow> bool" where
  "isspace c = (let n = (of_char c :: nat) in (9 \<le> n \<and> n \<le> 13) \<or> (28 \<le> n \<and> n \<le> 32))"

text \<open>\<open>s.strip()\<close>: leading and trailing whitespace removed.\<close>

definition strip :: "string \<Rightarrow> string" where
  "strip s = rev (dropWhile isspace (rev (dropWhile isspace s)))"

text \<open>\<open>s.lower()\<close>: the letters A to Z mapped to a to z.\<close>

definition lower_char :: "char \<Rightarrow> char" where
  "lower_char c = (let n = (of_char c :: nat) in if 65 \<le> n \<and> n \<le> 90 then char_of (n + 32) else c)"

definition lower :: "string \<Rightarrow> string" where
  "lower s = map lower_char s"

text \<open>
  \<open>s.replace(old, new)\<close>: every non-overlapping occurrence of \<open>old\<close>, scanning from the
  left, is replaced by \<open>new\<close>. With an empty \<open>old\<close> Python puts \<open>new\<close> before every
  character and at the end.
\<close>

function replace :: "string \<Rightarrow> string \<Rightarrow> string \<Rightarrow> string" where
  "replace old new s =
     (if old = [] then new @ concat (map (\<lambda>c. c # new) s)
      else if s = [] then []
      else if take (length old) s = old then new @ replace old new (drop (length old) s)
      else hd s # replace old new (tl s))"
  by pat_completeness auto
termination
  by (relation "measure (\<lambda>(old, new, s). length s)") auto

declare replace.simps [simp del]

text \<open>\<open>slugify\<close> of \<open>app.py\<close>.\<close>

definition slugify :: "string \<Rightarrow> string" where
  "slugify text = replace ''&'' ''and'' (replace ''/'' ''-'' (replace '' '' ''-'' (lower text)))"

text \<open>\<open>str(n)\<close> for an integer: decimal digits, a minus sign when negative.\<close>

definition digit_char :: "nat \<Rightarrow> char" where
  "digit_char d = ''0123456789'' ! d"

function str_nat :: "nat \<Rightarrow> string" where
  "str_nat n = (if n < 10 then [digit_char n] else str_nat (n div 10) @ [digit_char (n mod 10)])"
  by pat_completeness auto
termination
  by (relation "measure id") auto

declare str_nat.simps [simp del]

definition str_int :: "int \<Rightarrow> string" where
  "str_int i = (if i < 0 then CHR ''-'' # str_nat (nat (- i)) else str_nat (nat i))"

text \<open>
  \<open>int(s)\<close> for a string, base 10: whitespace (the C locale's: tab, line feed,
  vertical tab, form feed, carriage return, space) is skipped on both sides, then an
  optional sign, then decimal digits, where single underscores may stand between digits.
  \<open>None\<close> is Python's \<open>ValueError\<close>.
\<close>

definition c_isspace :: "char \<Rightarrow> bool" where
  "c_isspace c = (let n = (of_char c :: nat) in (9 \<le> n \<and> n \<le> 13) \<or> n = 32)"

definition isdigit :: "char \<Rightarrow> bool" where
  "isdigit c = (let n = (of_char c :: nat) in 48 \<le> n \<and> n \<le> 57)"

definition digit_val :: "char \<Rightarrow> nat" where
  "digit_val c = (of_char c :: nat) - 48"

fun no_double_underscore :: "string \<Rightarrow> bool" where
  "no_double_underscore (a # b # cs) =
     (\<not> (a = CHR ''_'' \<and> b = CHR ''_'') \<and> no_double_underscore (b # cs))"
| "no_double_underscore cs = True"

definition digits_ok :: "string \<Rightarrow> bool" where
  "digits_ok ds = (ds \<noteq> [] \<and> hd ds \<noteq> CHR ''_'' \<and> last ds \<noteq> CHR ''_'' \<and> no_double_underscore ds)"

definition py_int :: "string \<Rightarrow> int option" where
  "py_int s =
     (let t = dropWhile c_isspace s;
          neg = (t \<noteq> [] \<and> hd t = CHR ''-'');
          u = (if t \<noteq> [] \<and> (hd t = CHR ''+'' \<or> hd t = CHR ''-'') then tl t else t);
          ds = takeWhile (\<lambda>c. isdigit c \<or> c = CHR ''_'') u;
          rest = dropWhile (\<lambda>c. isdigit c \<or> c = CHR ''_'') u
      in if digits_ok ds \<and> dropWhile c_isspace rest = []
         then let v = int (foldl (\<lambda>a c. 10 * a + digit_val c) 0 (filter isdigit ds))
              in Some (if neg then - v else v)
         else None)"

section \<open>Data model (\<open>models.py\<close>)\<close>

text \<open>
  A row of each table is a record; the fields carry the prefix of their table
  (\<open>p_\<close> for \<open>Product\<close>, \<open>o_\<close> for \<open>Order\<close>, \<open>a_\<close> for \<open>AdminUser\<close>). A value of a
  \<open>Float\<close> column is the real number the float denotes; the arithmetic on floats is
  modelled with the cart routes below. A \<open>DateTime\<close> is a clock reading, an
  integer. The length bounds of the \<open>String\<close> columns are not modelled.
\<close>

type_synonym datetime = int

record product =
  p_id :: nat
  p_name :: string
  p_slug :: string
  p_category :: string
  p_price :: real
  p_description :: string
  p_image_url :: string
  p_sizes :: string
  p_in_stock :: bool
  p_is_featured :: bool

text \<open>
  A line item of the cart: the dictionary with the keys \<open>id\<close>, \<open>name\<close>, \<open>price\<close>,
  \<open>size\<close> and \<open>qty\<close> that \<open>add_to_cart\<close> builds.
\<close>

record line_item =
  i_id :: nat
  i_name :: string
  i_price :: real
  i_size :: string
  i_qty :: int

text \<open>
  The cart is a Python \<open>dict\<close> from composite keys to line items: an association list
  in insertion order. \<open>map_of\<close> reads a key, \<open>AList.update\<close> assigns one (in place
  when the key is present, at the end otherwise), \<open>AList.delete\<close> removes one. The keys
  of a \<open>dict\<close> are distinct.
\<close>

type_synonym cart = "(string \<times> line_item) list"

text \<open>
  \<open>o_items\<close> is the snapshot \<open>str(cart)\<close>; the model keeps the cart itself instead of
  its rendering as text.
\<close>

record order =
  o_id :: nat
  o_customer_name :: string
  o_customer_email :: string
  o_customer_phone :: string
  o_address :: string
  o_items :: cart
  o_total_price :: real
  o_status :: string
  o_created_at :: datetime

record admin_user =
  a_id :: nat
  a_username :: string
  a_password_hash :: string

text \<open>The database: the rows of the three tables, in insertion order.\<close>

record store =
  products :: "product list"
  orders :: "order list"
  admin_users :: "admin_user list"

datatype error = IntegrityError | KeyError | OverflowError

text \<open>An auto-assigned primary key: one more than the largest key in the table.\<close>

definition next_id :: "nat list \<Rightarrow> nat" where
  "next_id ids = Suc (fold max ids 0)"

text \<open>
  \<open>Order(...)\<close>, \<open>db.session.add\<close> and \<open>db.session.commit\<close> of \<open>checkout\<close>: the
  constructor is given no \<open>status\<close>, so the column default \<open>"Pending"\<close> applies, and
  the key is assigned on insertion.
\<close>

definition add_order ::
  "string \<Rightarrow> string \<Rightarrow> string \<Rightarrow> string \<Rightarrow> cart \<Rightarrow> real \<Rightarrow> datetime \<Rightarrow> store \<Rightarrow> order \<times> store" where
  "add_order customer_name customer_email customer_phone address items total_price created_at st =
     (let order = \<lparr>o_id = next_id (map o_id (orders st)),
                       o_customer_name = customer_name,
                       o_customer_email = customer_email,
                       o_customer_phone = customer_phone,
                       o_address = address,
                       o_items = items,
                       o_total_price = total_price,
                       o_status = ''Pending'',
                       o_created_at = created_at\<rparr>
      in (order, st\<lparr>orders := orders st @ [order]\<rparr>))"

text \<open>
  \<open>Product(...)\<close>, \<open>db.session.add\<close> and \<open>db.session.commit\<close> of \<open>admin_products\<close>.
  The \<open>slug\<close> column is declared \<open>unique=True\<close>: committing a row whose slug is
  already in the table raises \<open>IntegrityError\<close> and stores nothing.
\<close>

definition add_product ::
  "string \<Rightarrow> string \<Rightarrow> string \<Rightarrow> real \<Rightarrow> string \<Rightarrow> string \<Rightarrow> string \<Rightarrow> bool \<Rightarrow> bool \<Rightarrow> store \<Rightarrow> error + store" where
  "add_product name slug category price description image_url sizes is_featured in_stock st =
     (if slug \<in> set (map p_slug (products st)) then Inl IntegrityError
      else Inr (st\<lparr>products := products st @
              [\<lparr>p_id = next_id (map p_id (products st)),
                p_name = name,
                p_slug = slug,
                p_category = category,
                p_price = price,
                p_description = description,
                p_image_url = image_url,
                p_sizes = sizes,
                p_in_stock = in_stock,
                p_is_featured = is_featured\<rparr>]\<rparr>))"

section \<open>Session, request and response\<close>

text \<open>
  The Flask session: the key \<open>"cart"\<close> (absent for a new visitor), the key
  \<open>"admin_id"\<close>, and the flashed messages, each with its category. A template that shows
  the flashed messages empties the list; the templates are not part of the model.
\<close>

record session =
  s_cart :: "cart option"
  s_admin_id :: "nat option"
  s_flashes :: "(string \<times> string) list"

definition new_session :: session where
  "new_session = \<lparr>s_cart = None, s_admin_id = None, s_flashes = []\<rparr>"

datatype http_method = GET | POST

record request =
  r_method :: http_method
  r_form :: "string \<rightharpoonup> string"

text \<open>\<open>request.form.get(key, dflt)\<close>.\<close>

definition form_get :: "(string \<rightharpoonup> string) \<Rightarrow> string \<Rightarrow> string \<Rightarrow> string" where
  "form_get form key dflt = (case form key of None \<Rightarrow> dflt | Some v \<Rightarrow> v)"

text \<open>The routes \<open>url_for\<close> names in a redirect, and the templates with their arguments.\<close>

datatype endpoint =
  Products_view | Cart | Checkout | Order_success nat | Admin_login | Admin_dashboard | Admin_products

datatype page =
  Cart_html cart real
  | Checkout_html cart real
  | Admin_login_html
  | Admin_dashboard_html nat nat nat "order list"
  | Admin_products_html "product list"

text \<open>A response: a redirect, a rendered template, or the 404 of \<open>get_or_404\<close>.\<close>

datatype response = Redirect endpoint | Render page | NotFound

text \<open>\<open>flash(message, category)\<close>.\<close>

definition flash :: "string \<Rightarrow> string \<Rightarrow> session \<Rightarrow> session" where
  "flash message category s = s\<lparr>s_flashes := s_flashes s @ [(category, message)]\<rparr>"

section \<open>Helpers of \<open>app.py\<close>\<close>

definition get_cart :: "session \<Rightarrow> cart" where
  "get_cart s = (case s_cart s of None \<Rightarrow> [] | Some c \<Rightarrow> c)"

definition save_cart :: "cart \<Rightarrow> session \<Rightarrow> session" where
  "save_cart c s = s\<lparr>s_cart := Some c\<rparr>"

text \<open>\<open>bool(session.get("admin_id"))\<close>: an absent key and the number 0 are false.\<close>

definition is_admin :: "session \<Rightarrow> bool" where
  "is_admin s = (case s_admin_id s of None \<Rightarrow> False | Some i \<Rightarrow> i \<noteq> 0)"

definition require_admin_redirect :: "session \<Rightarrow> response option" where
  "require_admin_redirect s = (if \<not> is_admin s then Some (Redirect Admin_login) else None)"

text \<open>\<open>Product.query.get(product_id)\<close>: the row with that key, if any.\<close>

definition get_product :: "store \<Rightarrow> nat \<Rightarrow> product option" where
  "get_product st product_id = find (\<lambda>p. p_id p = product_id) (products st)"

section \<open>Cart routes\<close>

text \<open>The \<open>size\<close> and \<open>qty\<close> that \<open>add_to_cart\<close> reads from the form, and its key.\<close>

definition add_to_cart_size :: "request \<Rightarrow> string" where
  "add_to_cart_size req =
     strip (case r_form req ''size'' of None \<Rightarrow> '''' | Some v \<Rightarrow> if v = [] then '''' else v)"

definition add_to_cart_qty :: "request \<Rightarrow> int" where
  "add_to_cart_qty req =
     (let qty = (case py_int (form_get (r_form req) ''qty'' ''1'') of None \<Rightarrow> 1 | Some n \<Rightarrow> n)
      in if qty < 1 then 1 else qty)"

definition cart_key :: "nat \<Rightarrow> string \<Rightarrow> string" where
  "cart_key product_id sz = str_nat product_id @ ''-'' @ (if sz = [] then ''nosize'' else sz)"

text \<open>
  \<open>add_to_cart\<close>, the route \<open>/add-to-cart/<int:product_id>\<close>; the converter only
  matches natural numbers.
\<close>

definition add_to_cart :: "store \<Rightarrow> session \<Rightarrow> nat \<Rightarrow> request \<Rightarrow> response \<times> session" where
  "add_to_cart st s product_id req =
     (case get_product st product_id of
        None \<Rightarrow> (NotFound, s)
      | Some product \<Rightarrow>
          if \<not> p_in_stock product
          then (Redirect Products_view, flash ''This item is out of stock.'' ''warning'' s)
          else
            let sz = add_to_cart_size req;
                qty = add_to_cart_qty req;
                c = get_cart s;
                key = cart_key product_id sz;
                c' = (case map_of c key of
                        Some item \<Rightarrow> AList.update key (item\<lparr>i_qty := i_qty item + qty\<rparr>) c
                      | None \<Rightarrow>
                          AList.update key
                            \<lparr>i_id = p_id product, i_name = p_name product,
                             i_price = p_price product, i_size = sz, i_qty = qty\<rparr> c)
            in (Redirect Cart, flash ''Added to cart.'' ''success'' (save_cart c' s)))"

text \<open>
  Floating-point arithmetic. A value of Python's \<open>float\<close> type is modelled by the real
  number it denotes (infinities and NaN are not represented). The arithmetic on floats
  rounds, so it is a parameter of the model: \<open>mul_int x n\<close> is the value of \<open>x * n\<close> for a
  float \<open>x\<close> and an integer \<open>n\<close> that converts to a float, and \<open>sum_floats xs\<close> is the
  value of the built-in \<open>sum\<close> on the floats \<open>xs\<close> (added to 0 from the left, with
  compensation for rounding errors from Python 3.12 on; for no floats at all it is the
  integer 0).
\<close>

record float_arith =
  mul_int :: "real \<Rightarrow> int \<Rightarrow> real"
  sum_floats :: "real list \<Rightarrow> real"

text \<open>
  \<open>x * n\<close> first converts the integer to a float. The conversion rounds to the nearest
  double and raises \<open>OverflowError\<close> (int too large to convert to float) when the result
  is beyond the largest double, \<open>2^1024 - 2^971\<close>: that is from \<open>2^1024 - 2^970\<close> on, in
  magnitude.
\<close>

definition int_too_large :: "int \<Rightarrow> bool" where
  "int_too_large n = (2 ^ 1024 - 2 ^ 970 \<le> \<bar>n\<bar>)"

definition mul_float_int :: "float_arith \<Rightarrow> real \<Rightarrow> int \<Rightarrow> error + real" where
  "mul_float_int fl x n = (if int_too_large n then Inl OverflowError else Inr (mul_int fl x n))"

text \<open>
  The generator \<open>i["price"] * i["qty"] for i in cart.values()\<close>: the products in the
  order of the cart, or the first error raised.
\<close>

fun line_totals :: "float_arith \<Rightarrow> cart \<Rightarrow> error + real list" where
  "line_totals fl [] = Inr []"
| "line_totals fl ((key, i) # c) =
     (case mul_float_int fl (i_price i) (i_qty i) of
        Inl e \<Rightarrow> Inl e
      | Inr x \<Rightarrow> (case line_totals fl c of Inl e \<Rightarrow> Inl e | Inr xs \<Rightarrow> Inr (x # xs)))"

text \<open>The total that the cart view and the checkout compute.\<close>

definition cart_total :: "float_arith \<Rightarrow> cart \<Rightarrow> error + real" where
  "cart_total fl c =
     (case line_totals fl c of Inl e \<Rightarrow> Inl e | Inr xs \<Rightarrow> Inr (sum_floats fl xs))"

definition cart_view :: "float_arith \<Rightarrow> session \<Rightarrow> error + response" where
  "cart_view fl s =
     (let c = get_cart s
      in case cart_total fl c of
           Inl e \<Rightarrow> Inl e
         | Inr total' \<Rightarrow> Inr (Render (Cart_html c total')))"

text \<open>
  The quantity \<open>update_cart\<close> computes for one key: the form field \<open>qty_<key>\<close>, by
  default the text of the current quantity; when it does not parse, the current quantity.
\<close>

definition update_cart_qty :: "(string \<rightharpoonup> string) \<Rightarrow> string \<Rightarrow> line_item \<Rightarrow> int" where
  "update_cart_qty form key item =
     (let qty_raw = form_get form (''qty_'' @ key) (str_int (i_qty item))
      in case py_int qty_raw of None \<Rightarrow> i_qty item | Some n \<Rightarrow> n)"

text \<open>
  The loop of \<open>update_cart\<close> over \<open>list(cart.keys())\<close>. Reading \<open>cart[key]\<close> for a key
  that is no longer in the cart raises \<open>KeyError\<close>.
\<close>

fun update_cart_loop :: "(string \<rightharpoonup> string) \<Rightarrow> string list \<Rightarrow> cart \<Rightarrow> error + cart" where
  "update_cart_loop form [] c = Inr c"
| "update_cart_loop form (key # keys) c =
     (case map_of c key of
        None \<Rightarrow> Inl KeyError
      | Some item \<Rightarrow>
          let qty = update_cart_qty form key item
          in if qty \<le> 0 then update_cart_loop form keys (AList.delete key c)
             else update_cart_loop form keys (AList.update key (item\<lparr>i_qty := qty\<rparr>) c))"

definition update_cart :: "session \<Rightarrow> request \<Rightarrow> error + response \<times> session" where
  "update_cart s req =
     (let c = get_cart s
      in case update_cart_loop (r_form req) (map fst c) c of
           Inl e \<Rightarrow> Inl e
         | Inr c' \<Rightarrow> Inr (Redirect Cart, flash ''Cart updated.'' ''info'' (save_cart c' s)))"

section \<open>Checkout\<close>

text \<open>
  \<open>now\<close> is the value \<open>datetime.utcnow()\<close> returns when the order is built. The total is
  computed before the method and the fields are looked at; an error raised there ends the
  request, and neither the session nor the store changes.
\<close>

definition checkout ::
  "float_arith \<Rightarrow> store \<Rightarrow> session \<Rightarrow> request \<Rightarrow> datetime \<Rightarrow> error + response \<times> session \<times> store" where
  "checkout fl st s req now =
     (let c = get_cart s
      in if c = [] then Inr (Redirect Products_view, flash ''Your cart is empty.'' ''warning'' s, st)
         else
           case cart_total fl c of
             Inl e \<Rightarrow> Inl e
           | Inr total' \<Rightarrow>
               if r_method req = POST
               then
                 let name = strip (form_get (r_form req) ''name'' '''');
                     email = strip (form_get (r_form req) ''email'' '''');
                     phone = strip (form_get (r_form req) ''phone'' '''');
                     address = strip (form_get (r_form req) ''address'' '''')
                 in if \<not> list_all (\<lambda>v. v \<noteq> []) [name, email, phone, address]
                    then Inr (Redirect Checkout, flash ''Please fill in all fields.'' ''danger'' s, st)
                    else
                      let (order, st') = add_order name email phone address c total' now st
                      in Inr (Redirect (Order_success (o_id order)),
                              flash ''Order placed! We will contact you to confirm.'' ''success''
                                (s\<lparr>s_cart := Some []\<rparr>),
                              st')
               else Inr (Render (Checkout_html c total'), s, st))"

section \<open>Admin routes\<close>

text \<open>
  \<open>check_password_hash\<close> of werkzeug is a parameter of the login: any function from
  the stored hash and the submitted password to a truth value.
\<close>

definition check_password :: "(string \<Rightarrow> string \<Rightarrow> bool) \<Rightarrow> admin_user \<Rightarrow> string \<Rightarrow> bool" where
  "check_password check_password_hash user password =
     check_password_hash (a_password_hash user) password"

definition admin_login ::
  "(string \<Rightarrow> string \<Rightarrow> bool) \<Rightarrow> store \<Rightarrow> session \<Rightarrow> request \<Rightarrow> response \<times> session \<times> store" where
  "admin_login check_password_hash st s req =
     (if r_method req = POST
      then
        let username = strip (form_get (r_form req) ''username'' '''');
            password = strip (form_get (r_form req) ''password'' '''');
            user = find (\<lambda>u. a_username u = username) (admin_users st)
        in if (case user of None \<Rightarrow> False
               | Some u \<Rightarrow> check_password check_password_hash u password)
           then (Redirect Admin_dashboard,
                 flash ''Welcome, admin.'' ''success'' (s\<lparr>s_admin_id := map_option a_id user\<rparr>),
                 st)
           else (Render Admin_login_html, flash ''Invalid credentials.'' ''danger'' s, st)
      else (Render Admin_login_html, s, st))"

definition admin_logout :: "store \<Rightarrow> session \<Rightarrow> response \<times> session \<times> store" where
  "admin_logout st s =
     (Redirect Admin_login, flash ''Logged out.'' ''info'' (s\<lparr>s_admin_id := None\<rparr>), st)"

text \<open>
  The dashboard. \<open>order_by(Order.created_at.desc())\<close> is the ascending stable sort
  reversed; SQL leaves the order of rows with equal keys open.
\<close>

definition admin_dashboard :: "store \<Rightarrow> session \<Rightarrow> response \<times> session \<times> store" where
  "admin_dashboard st s =
     (case require_admin_redirect s of
        Some r \<Rightarrow> (r, s, st)
      | None \<Rightarrow>
          let total_products = length (products st);
              total_orders = length (orders st);
              pending_orders = length (filter (\<lambda>row. o_status row = ''Pending'') (orders st));
              recent_orders = take 5 (rev (sort_key o_created_at (orders st)))
          in (Render (Admin_dashboard_html total_products total_orders pending_orders recent_orders),
              s, st))"

text \<open>
  The product management route. \<open>float\<close> is Python's parser of a floating-point
  literal (\<open>None\<close> for \<open>ValueError\<close>), a parameter; \<open>ts\<close> is the value of
  \<open>int(datetime.utcnow().timestamp())\<close> at the request.
\<close>

definition admin_products ::
  "(string \<Rightarrow> real option) \<Rightarrow> store \<Rightarrow> session \<Rightarrow> request \<Rightarrow> int \<Rightarrow>
     error + response \<times> session \<times> store" where
  "admin_products float st s req ts =
     (case require_admin_redirect s of
        Some r \<Rightarrow> Inr (r, s, st)
      | None \<Rightarrow>
          let listing = (\<lambda>s' st'.
                Inr (Render (Admin_products_html (rev (sort_key p_id (products st')))), s', st'))
          in if r_method req = POST
             then
               let name = strip (form_get (r_form req) ''name'' '''');
                   category = strip (form_get (r_form req) ''category'' '''');
                   price_raw = strip (form_get (r_form req) ''price'' ''0'');
                   description = strip (form_get (r_form req) ''description'' '''');
                   image_url = strip (form_get (r_form req) ''image_url'' '''');
                   sizes = strip (form_get (r_form req) ''sizes'' '''');
                   is_featured =
                     (case r_form req ''is_featured'' of None \<Rightarrow> False | Some v \<Rightarrow> v \<noteq> []);
                   price = (case float price_raw of None \<Rightarrow> 0 | Some x \<Rightarrow> x)
               in if name = [] \<or> category = [] \<or> price \<le> 0
                  then listing (flash ''Name, category & valid price required.'' ''danger'' s) st
                  else
                    let slug = slugify name;
                        slug = (if find (\<lambda>p. p_slug p = slug) (products st) \<noteq> None
                                then slug @ ''-'' @ str_int ts else slug)
                    in case add_product name slug category price description image_url sizes
                              is_featured True st of
                         Inl e \<Rightarrow> Inl e
                       | Inr st' \<Rightarrow> listing (flash ''Product added.'' ''success'' s) st'
             else listing s st)"

definition admin_toggle_stock :: "store \<Rightarrow> session \<Rightarrow> nat \<Rightarrow> response \<times> session \<times> store" where
  "admin_toggle_stock st s product_id =
     (case require_admin_redirect s of
        Some r \<Rightarrow> (r, s, st)
      | None \<Rightarrow>
          (case get_product st product_id of
             None \<Rightarrow> (NotFound, s, st)
           | Some product \<Rightarrow>
               (Redirect Admin_products,
                flash ''Stock status updated.'' ''info'' s,
                st\<lparr>products :=
                     map (\<lambda>p. if p_id p = product_id then p\<lparr>p_in_stock := \<not> p_in_stock p\<rparr> else p)
                       (products st)\<rparr>)))"

section \<open>The sessions of a visitor\<close>

text \<open>
  A visitor starts with a new session; every request replaces the session by the one
  the route returns. Only \<open>add_to_cart\<close>, \<open>update_cart\<close> and \<open>checkout\<close> assign the
  key \<open>"cart"\<close>; every other route (and a template that shows the flashed messages)
  leaves it as it is.
\<close>

inductive reachable :: "session \<Rightarrow> bool" where
  new: "reachable new_session"
| add: "reachable s \<Longrightarrow> add_to_cart st s product_id req = (resp, s') \<Longrightarrow> reachable s'"
| update: "reachable s \<Longrightarrow> update_cart s req = Inr (resp, s') \<Longrightarrow> reachable s'"
| checkout: "reachable s \<Longrightarrow> checkout fl st s req now = Inr (resp, s', st') \<Longrightarrow> reachable s'"
| other: "reachable s \<Longrightarrow> s_cart s' = s_cart s \<Longrightarrow> reachable s'"

text \<open>
  A well-formed cart: the keys are distinct, as the keys of a \<open>dict\<close> are, and every
  line item has a quantity of at least 1.
\<close>

definition cart_ok :: "cart \<Rightarrow> bool" where
  "cart_ok c = (distinct (map fst c) \<and> list_all (\<lambda>(key, item). 1 \<le> i_qty item) c)"

section \<open>Example data\<close>

text \<open>
  A POST request with the given form fields, and a shop with one product in stock and
  one out of stock, for the concrete instances below.
\<close>

definition post :: "(string \<times> string) list \<Rightarrow> request" where
  "post kvs = \<lparr>r_method = POST, r_form = map_of kvs\<rparr>"

definition kameez :: product where
  "kameez = \<lparr>p_id = 5, p_name = ''Embroidered Salwar Kameez'', p_slug = ''embroidered-salwar-kameez'',
             p_category = ''Salwar'', p_price = 55, p_description = ''Beautiful salwar from Nokshi.'',
             p_image_url = ''/static/images/placeholder.jpg'', p_sizes = ''S,M,L,XL'',
             p_in_stock = True, p_is_featured = True\<rparr>"

definition saree :: product where
  "saree = \<lparr>p_id = 7, p_name = ''Nokshi Handloom Saree'', p_slug = ''nokshi-handloom-saree'',
            p_category = ''Saree'', p_price = 65, p_description = ''Beautiful saree from Nokshi.'',
            p_image_url = ''/static/images/placeholder.jpg'', p_sizes = [],
            p_in_stock = False, p_is_featured = True\<rparr>"

definition shop :: store where
  "shop = \<lparr>products = [kameez, saree], orders = [],
           admin_users = [\<lparr>a_id = 1, a_username = ''admin'', a_password_hash = ''hash-of-nokshi123''\<rparr>]\<rparr>"

text \<open>
  Two sessions: a cart with one line item, and a cart whose first line item was added
  when the product had another name and price.
\<close>

definition basket :: session where
  "basket = \<lparr>s_cart = Some [(''5-M'', \<lparr>i_id = 5, i_name = ''Embroidered Salwar Kameez'', i_price = 55,
                                        i_size = ''M'', i_qty = 2\<rparr>)],
              s_admin_id = None, s_flashes = []\<rparr>"

definition old_basket :: session where
  "old_basket = \<lparr>s_cart = Some [(''5-M'', \<lparr>i_id = 5, i_name = ''Salwar Kameez'', i_price = 50,
                                            i_size = ''M'', i_qty = 2\<rparr>),
                                   (''7-nosize'', \<lparr>i_id = 7, i_name = ''Nokshi Handloom Saree'', i_price = 65,
                                                 i_size = [], i_qty = 1\<rparr>)],
                  s_admin_id = None, s_flashes = []\<rparr>"

text \<open>A cart with two line items, a complete contact form, and one with a blank phone.\<close>

definition full_basket :: session where
  "full_basket = \<lparr>s_cart = Some [(''7-nosize'', \<lparr>i_id = 7, i_name = ''Nokshi Handloom Saree'',
                                                 i_price = 65, i_size = [], i_qty = 2\<rparr>),
                                    (''5-M'', \<lparr>i_id = 5, i_name = ''Embroidered Salwar Kameez'',
                                             i_price = 55, i_size = ''M'', i_qty = 1\<rparr>)],
                   s_admin_id = None, s_flashes = []\<rparr>"

definition contact :: request where
  "contact = post [(''name'', ''  Rahima Begum ''), (''email'', ''rahima@example.org''),
                   (''phone'', ''01700000000''), (''address'', ''12 Lake Road, Dhaka'')]"

definition no_phone :: request where
  "no_phone = post [(''name'', ''Rahima Begum''), (''email'', ''rahima@example.org''),
                    (''phone'', ''   ''), (''address'', ''12 Lake Road, Dhaka'')]"

text \<open>
  A password check for the examples, two failing login forms, the session of a logged-in
  administrator, a parser of the one price the examples submit, an add-product form, and
  a shop without products.
\<close>

definition verify :: "string \<Rightarrow> string \<Rightarrow> bool" where
  "verify pwhash password = (pwhash = ''hash-of-'' @ password)"

definition unknown_user :: request where
  "unknown_user = post [(''username'', ''nobody''), (''password'', ''nokshi123'')]"

definition wrong_password :: request where
  "wrong_password = post [(''username'', ''admin''), (''password'', ''letmein'')]"

definition admin_session :: session where
  "admin_session = \<lparr>s_cart = None, s_admin_id = Some 1, s_flashes = []\<rparr>"

definition float_65 :: "string \<Rightarrow> real option" where
  "float_65 v = (if v = ''65'' then Some 65 else None)"

definition silk_saree :: request where
  "silk_saree = post [(''name'', ''Silk Saree''), (''category'', ''Saree''), (''price'', ''65'')]"

definition empty_shop :: store where
  "empty_shop = \<lparr>products = [], orders = [], admin_users = admin_users shop\<rparr>"

text \<open>
  Arithmetic that does not round, which is what double arithmetic does on the small whole
  numbers of the examples. A request for a quantity beyond the range of a double, and
  the session of a new visitor after that request. Two forms with a size to trim.
\<close>

definition exact_arith :: float_arith where
  "exact_arith = \<lparr>mul_int = (\<lambda>x n. x * real_of_int n), sum_floats = sum_list\<rparr>"

definition big_qty :: int where
  "big_qty = 10 ^ 309"

definition huge :: request where
  "huge = post [(''size'', ''M''), (''qty'', str_int big_qty)]"

definition big_basket :: session where
  "big_basket = snd (add_to_cart shop new_session 5 huge)"

definition blank_size :: request where
  "blank_size = post [(''size'', ''   '')]"

definition padded_size :: request where
  "padded_size = post [(''size'', '' M ''), (''qty'', ''3'')]"

section \<open>Facts about the string functions\<close>

lemma replace_char:
  "replace [c] new s = concat (map (\<lambda>x. if x = c then new else [x]) s)"
proof (induction s)
  case Nil
  show ?case by (simp add: replace.simps)
next
  case (Cons a s)
  then show ?case by (subst replace.simps) simp
qed

lemma slugify_chars:
  "slugify s =
     concat (map (\<lambda>c. if c = CHR '' '' then ''-'' else if c = CHR ''/'' then ''-''
                       else if c = CHR ''&'' then ''and'' else [c]) (lower s))"
  unfolding slugify_def replace_char
  by (induction "lower s" arbitrary: s) (auto simp: lower_def)

lemma str_nat_lt10: "n < 10 \<Longrightarrow> str_nat n = [digit_char n]"
  by (subst str_nat.simps) simp

lemma str_nat_ge10: "10 \<le> n \<Longrightarrow> str_nat n = str_nat (n div 10) @ [digit_char (n mod 10)]"
  by (subst str_nat.simps) simp

lemmas str_eval = str_int_def str_nat_lt10 str_nat_ge10 digit_char_def

section \<open>Facts about the cart dictionary\<close>

lemma update_in_place:
  "k \<notin> fst ` set xs \<Longrightarrow> AList.update k v (xs @ (k, w) # ys) = xs @ (k, v) # ys"
  by (induction xs) auto

lemma delete_in_place:
  "k \<notin> fst ` set xs \<Longrightarrow> k \<notin> fst ` set ys \<Longrightarrow> AList.delete k (xs @ (k, w) # ys) = xs @ ys"
  by (induction xs) auto

lemma map_of_in_place:
  "k \<notin> fst ` set xs \<Longrightarrow> map_of (xs @ (k, w) # ys) k = Some w"
  by (induction xs) auto

lemma update_new_key:
  "map_of c k = None \<Longrightarrow> AList.update k v c = c @ [(k, v)]"
  by (induction c) (auto split: if_splits)

lemma update_old_key:
  "map_of c k = Some w \<Longrightarrow> map fst (AList.update k v c) = map fst c"
  by (induction c) (auto split: if_splits)

lemma list_all_update:
  "list_all P c \<Longrightarrow> P (k, v) \<Longrightarrow> list_all P (AList.update k v c)"
  by (induction c) auto

lemma list_all_map_of:
  "list_all P c \<Longrightarrow> map_of c k = Some w \<Longrightarrow> P (k, w)"
  by (induction c) (auto split: if_splits)

lemma one_line_per_key:
  "distinct (map fst c) \<Longrightarrow> length (filter (\<lambda>(k', v'). k' = k) (AList.update k v c)) = 1"
proof (induction c)
  case Nil
  show ?case by simp
next
  case (Cons p c)
  show ?case
  proof (cases "fst p = k")
    case True
    with Cons.prems have "k \<notin> fst ` set c" by auto
    then have "filter (\<lambda>(k', v'). k' = k) c = []"
      by (force simp: filter_empty_conv)
    with True show ?thesis by simp
  next
    case False
    with Cons show ?thesis by (auto simp: case_prod_beta)
  qed
qed

lemma update_cart_loop_append:
  "distinct (map fst (pre @ rest)) \<Longrightarrow>
   update_cart_loop form (map fst rest) (pre @ rest) =
     Inr (pre @ List.map_filter
            (\<lambda>(key, item). let qty = update_cart_qty form key item
                             in if qty \<le> 0 then None else Some (key, item\<lparr>i_qty := qty\<rparr>)) rest)"
proof (induction rest arbitrary: pre)
  case Nil
  show ?case by (simp add: map_filter_simps)
next
  case (Cons p rest)
  obtain k it where p: "p = (k, it)" by (cases p)
  from Cons.prems p have k1: "k \<notin> fst ` set pre" and k2: "k \<notin> fst ` set rest"
    by auto
  from Cons.prems p have d1: "distinct (map fst (pre @ rest))" by simp
  from Cons.prems p have d2: "distinct (map fst ((pre @ [(k, it\<lparr>i_qty := update_cart_qty form k it\<rparr>)]) @ rest))"
    by simp
  have m: "map_of (pre @ (k, it) # rest) k = Some it"
    using k1 by (rule map_of_in_place)
  show ?case
  proof (cases "update_cart_qty form k it \<le> 0")
    case True
    have "AList.delete k (pre @ (k, it) # rest) = pre @ rest"
      using k1 k2 by (rule delete_in_place)
    with True show ?thesis
      using Cons.IH [OF d1]
      by (simp add: p m map_filter_simps del: map_of_append)
  next
    case False
    have "AList.update k (it\<lparr>i_qty := update_cart_qty form k it\<rparr>) (pre @ (k, it) # rest) =
          pre @ (k, it\<lparr>i_qty := update_cart_qty form k it\<rparr>) # rest"
      using k1 by (rule update_in_place)
    with False show ?thesis
      using Cons.IH [OF d2]
      by (simp add: p m map_filter_simps del: map_of_append)
  qed
qed

section \<open>Facts about the cart routes\<close>

lemma update_cart_loop_keys:
  "distinct (map fst c) \<Longrightarrow>
   update_cart_loop form (map fst c) c =
     Inr (List.map_filter
            (\<lambda>(key, item). let qty = update_cart_qty form key item
                             in if qty \<le> 0 then None else Some (key, item\<lparr>i_qty := qty\<rparr>)) c)"
  using update_cart_loop_append [of "[]" c form] by simp

lemma map_filter_keys:
  "map fst (List.map_filter
            (\<lambda>(key, item). let qty = update_cart_qty form key item
                             in if qty \<le> 0 then None else Some (key, item\<lparr>i_qty := qty\<rparr>)) c) =
   map fst (filter (\<lambda>(key, item). 0 < update_cart_qty form key item) c)"
  by (induction c) (auto simp: map_filter_simps Let_def)

lemma map_filter_qty:
  "list_all (\<lambda>(key, item). 1 \<le> i_qty item)
     (List.map_filter
            (\<lambda>(key, item). let qty = update_cart_qty form key item
                             in if qty \<le> 0 then None else Some (key, item\<lparr>i_qty := qty\<rparr>)) c)"
  by (induction c) (auto simp: map_filter_simps Let_def)

lemma add_to_cart_qty_pos: "1 \<le> add_to_cart_qty req"
  by (simp add: add_to_cart_qty_def Let_def)

lemma add_to_cart_ok:
  assumes "cart_ok (get_cart s)" and "add_to_cart st s product_id req = (resp, s')"
  shows "cart_ok (get_cart s')"
proof (cases "get_product st product_id")
  case None
  with assms show ?thesis by (simp add: add_to_cart_def)
next
  case (Some product)
  show ?thesis
  proof (cases "p_in_stock product")
    case False
    with Some assms show ?thesis
      by (auto simp: add_to_cart_def flash_def get_cart_def)
  next
    case True
    let ?key = "cart_key product_id (add_to_cart_size req)"
    let ?c = "get_cart s"
    show ?thesis
    proof (cases "map_of ?c ?key")
      case None
      have "s' = flash ''Added to cart.'' ''success''
                  (save_cart (AList.update ?key
                     \<lparr>i_id = p_id product, i_name = p_name product, i_price = p_price product,
                      i_size = add_to_cart_size req, i_qty = add_to_cart_qty req\<rparr> ?c) s)"
        using assms(2) Some True None by (simp add: add_to_cart_def Let_def)
      then show ?thesis
        using assms(1) add_to_cart_qty_pos [of req]
        by (simp add: cart_ok_def flash_def save_cart_def get_cart_def distinct_update list_all_update)
    next
      case (Some item)
      have s': "s' = flash ''Added to cart.'' ''success''
                  (save_cart (AList.update ?key (item\<lparr>i_qty := i_qty item + add_to_cart_qty req\<rparr>) ?c) s)"
        using assms(2) \<open>get_product st product_id = Some product\<close> True Some
        by (simp add: add_to_cart_def Let_def)
      have "1 \<le> i_qty item"
        using list_all_map_of [OF _ Some, of "\<lambda>(key, item). 1 \<le> i_qty item"] assms(1)
        by (simp add: cart_ok_def)
      then show ?thesis
        using assms(1) add_to_cart_qty_pos [of req] s'
        by (simp add: cart_ok_def flash_def save_cart_def get_cart_def distinct_update list_all_update)
    qed
  qed
qed

lemma update_cart_ok:
  assumes "distinct (map fst (get_cart s))"
  shows "update_cart s req =
           Inr (Redirect Cart, flash ''Cart updated.'' ''info''
                  (save_cart (List.map_filter
            (\<lambda>(key, item). let qty = update_cart_qty (r_form req) key item
                             in if qty \<le> 0 then None else Some (key, item\<lparr>i_qty := qty\<rparr>)) (get_cart s)) s))"
  using update_cart_loop_keys [OF assms] by (simp add: update_cart_def Let_def)

lemma checkout_cart:
  "checkout fl st s req now = Inr (resp, s', st') \<Longrightarrow> get_cart s' = [] \<or> s_cart s' = s_cart s"
  by (auto simp: checkout_def Let_def flash_def get_cart_def
      split: if_splits prod.splits sum.splits)

lemma reachable_ok: "reachable s \<Longrightarrow> cart_ok (get_cart s)"
proof (induction rule: reachable.induct)
  case new
  show ?case by (simp add: new_session_def get_cart_def cart_ok_def)
next
  case (add s st product_id req resp s')
  then show ?case by (blast intro: add_to_cart_ok)
next
  case (update s req resp s')
  then have d: "distinct (map fst (get_cart s))" by (simp add: cart_ok_def)
  from update.hyps(2) update_cart_ok [OF d, of req]
  have "get_cart s' = List.map_filter
            (\<lambda>(key, item). let qty = update_cart_qty (r_form req) key item
                             in if qty \<le> 0 then None else Some (key, item\<lparr>i_qty := qty\<rparr>)) (get_cart s)"
    by (auto simp: flash_def save_cart_def get_cart_def)
  then show ?case
    using d by (simp add: cart_ok_def map_filter_keys map_filter_qty distinct_map_filter)
next
  case (checkout s fl st req now resp s' st')
  from checkout_cart [OF checkout.hyps(2)] checkout.IH show ?case
    by (auto simp: cart_ok_def get_cart_def)
next
  case (other s s')
  then show ?case by (simp add: get_cart_def)
qed

lemma map_filter_map_of:
  "distinct (map fst c) \<Longrightarrow>
   map_of (List.map_filter
            (\<lambda>(key, item). let qty = update_cart_qty form key item
                             in if qty \<le> 0 then None else Some (key, item\<lparr>i_qty := qty\<rparr>)) c) k =
   (case map_of c k of
      None \<Rightarrow> None
    | Some item \<Rightarrow> if update_cart_qty form k item \<le> 0 then None
                   else Some (item\<lparr>i_qty := update_cart_qty form k item\<rparr>))"
proof (induction c)
  case Nil
  show ?case by (simp add: map_filter_simps)
next
  case (Cons p c)
  obtain k' it where p: "p = (k', it)" by (cases p)
  from Cons.prems p have notin: "k' \<notin> fst ` set c" and d: "distinct (map fst c)" by auto
  have "set (map fst (List.map_filter
            (\<lambda>(key, item). let qty = update_cart_qty form key item
                             in if qty \<le> 0 then None else Some (key, item\<lparr>i_qty := qty\<rparr>)) c))
          \<subseteq> set (map fst c)"
    unfolding map_filter_keys by auto
  with notin have gone: "map_of (List.map_filter
            (\<lambda>(key, item). let qty = update_cart_qty form key item
                             in if qty \<le> 0 then None else Some (key, item\<lparr>i_qty := qty\<rparr>)) c) k' = None"
    unfolding map_of_eq_None_iff by auto
  show ?case
    using Cons.IH [OF d] gone by (auto simp: p map_filter_simps Let_def)
qed

lemma py_int_1: "py_int ''1'' = Some 1"
  by code_simp

lemma add_to_cart_qty_cases:
  "add_to_cart_qty req =
     (case r_form req ''qty'' of
        None \<Rightarrow> 1
      | Some v \<Rightarrow> (case py_int v of None \<Rightarrow> 1 | Some n \<Rightarrow> if n < 1 then 1 else n))"
  by (simp add: add_to_cart_qty_def form_get_def py_int_1 Let_def split: option.splits)

lemma strip_M: "strip ''M'' = ''M''"
  by code_simp

lemma py_int_m3: "py_int ''-3'' = Some (- 3)"
  by code_simp

lemma py_int_0: "py_int ''0'' = Some 0"
  by code_simp

lemma key_5_M: "cart_key 5 ''M'' = ''5-M''"
  by (simp add: cart_key_def str_eval)

lemma add_kameez:
  "add_to_cart shop new_session 5 (post [(''size'', ''M''), (''qty'', ''-3'')]) =
     (Redirect Cart,
      \<lparr>s_cart = Some [(''5-M'', \<lparr>i_id = 5, i_name = ''Embroidered Salwar Kameez'', i_price = 55,
                                 i_size = ''M'', i_qty = 1\<rparr>)],
       s_admin_id = None, s_flashes = [(''success'', ''Added to cart.'')]\<rparr>)"
  by (simp add: add_to_cart_def get_product_def shop_def kameez_def saree_def new_session_def
      post_def add_to_cart_size_def add_to_cart_qty_def form_get_def strip_M py_int_m3 key_5_M
      get_cart_def save_cart_def flash_def Let_def)

lemma add_to_cart_result:
  assumes "get_product st product_id = Some product" and "p_in_stock product"
  shows "add_to_cart st s product_id req =
     (Redirect Cart,
      flash ''Added to cart.'' ''success''
        (save_cart
           (case map_of (get_cart s) (cart_key product_id (add_to_cart_size req)) of
              Some item \<Rightarrow>
                AList.update (cart_key product_id (add_to_cart_size req))
                  (item\<lparr>i_qty := i_qty item + add_to_cart_qty req\<rparr>) (get_cart s)
            | None \<Rightarrow>
                AList.update (cart_key product_id (add_to_cart_size req))
                  \<lparr>i_id = p_id product, i_name = p_name product, i_price = p_price product,
                   i_size = add_to_cart_size req, i_qty = add_to_cart_qty req\<rparr> (get_cart s)) s))"
  using assms by (simp add: add_to_cart_def Let_def)

lemma get_cart_saved: "get_cart (flash m cat (save_cart c s)) = c"
  by (simp add: get_cart_def flash_def save_cart_def)

lemma py_int_3: "py_int ''3'' = Some 3"
  by code_simp

lemma get_kameez: "get_product shop 5 = Some kameez"
  by (simp add: get_product_def shop_def kameez_def)

lemma get_saree: "get_product shop 7 = Some saree"
  by (simp add: get_product_def shop_def kameez_def saree_def)

lemma size_M: "add_to_cart_size (post [(''size'', ''M''), (''qty'', ''3'')]) = ''M''"
  by (simp add: add_to_cart_size_def post_def strip_M)

lemma qty_3: "add_to_cart_qty (post [(''size'', ''M''), (''qty'', ''3'')]) = 3"
  by (simp add: add_to_cart_qty_def post_def form_get_def py_int_3)

lemma strip_name: "strip ''  Rahima Begum '' = ''Rahima Begum''"
  by code_simp

lemma strip_name2: "strip ''Rahima Begum'' = ''Rahima Begum''"
  by code_simp

lemma strip_email: "strip ''rahima@example.org'' = ''rahima@example.org''"
  by code_simp

lemma strip_phone: "strip ''01700000000'' = ''01700000000''"
  by code_simp

lemma strip_address: "strip ''12 Lake Road, Dhaka'' = ''12 Lake Road, Dhaka''"
  by code_simp

lemma strip_blank: "strip ''   '' = []"
  by code_simp

lemma strip_empty: "strip [] = []"
  by (simp add: strip_def)

lemmas contact_fields =
  contact_def no_phone_def post_def form_get_def strip_name strip_name2 strip_email strip_phone
  strip_address strip_blank strip_empty

section \<open>Facts about the admin routes\<close>

lemma strip_nobody: "strip ''nobody'' = ''nobody''"
  by code_simp

lemma strip_admin: "strip ''admin'' = ''admin''"
  by code_simp

lemma strip_letmein: "strip ''letmein'' = ''letmein''"
  by code_simp

lemma admin_products_valid:
  assumes "is_admin s" and "r_method req = POST"
    and "strip (form_get (r_form req) ''name'' '''') = name" and "name \<noteq> []"
    and "strip (form_get (r_form req) ''category'' '''') \<noteq> []"
    and "float (strip (form_get (r_form req) ''price'' ''0'')) = Some price" and "0 < price"
  shows
    "(let slug = (if slugify name \<in> set (map p_slug (products st))
                  then slugify name @ ''-'' @ str_int ts else slugify name)
      in if slug \<in> set (map p_slug (products st))
         then admin_products float st s req ts = Inl IntegrityError
         else \<exists>r st'. admin_products float st s req ts =
                         Inr (r, flash ''Product added.'' ''success'' s, st')
                 \<and> map p_slug (products st') = map p_slug (products st) @ [slug])"
proof -
  have f1: "(find (\<lambda>p. p_slug p = x) (products st) = None) =
              (x \<notin> set (map p_slug (products st)))" for x
    by (auto simp: find_None_iff)
  have f2: "(\<exists>y. find (\<lambda>p. p_slug p = x) (products st) = Some y) =
              (x \<in> set (map p_slug (products st)))" for x
    using f1 [of x] by (cases "find (\<lambda>p. p_slug p = x) (products st)") simp_all
  show ?thesis
    using assms
    by (simp add: admin_products_def require_admin_redirect_def add_product_def Let_def f1 f2
        del: set_map)
qed

lemma admin_products_slugs_distinct:
  assumes "distinct (map p_slug (products st))"
    and "admin_products float st s req ts = Inr (r, s', st')"
  shows "distinct (map p_slug (products st'))"
  using assms
  by (auto simp: admin_products_def add_product_def Let_def
      split: option.splits if_splits sum.splits)

lemma slugify_silk: "slugify ''Silk Saree'' = ''silk-saree''"
  by code_simp

lemma strip_silk: "strip ''Silk Saree'' = ''Silk Saree''"
  by code_simp

lemma strip_saree: "strip ''Saree'' = ''Saree''"
  by code_simp

lemma strip_65: "strip ''65'' = ''65''"
  by code_simp

lemma str_int_100: "str_int 100 = ''100''"
  by (simp add: str_eval)

section \<open>Reading back a printed integer\<close>

text \<open>
  \<open>int(str(i)) = i\<close>: the default of \<open>update_cart\<close> for a missing field is the
  current quantity, so a request without fields leaves a well-formed cart as it is.
\<close>

lemma digit_char_facts:
  assumes "d < 10"
  shows "isdigit (digit_char d)" and "digit_val (digit_char d) = d"
    and "\<not> c_isspace (digit_char d)" and "digit_char d \<noteq> CHR ''_''"
    and "digit_char d \<noteq> CHR ''+''" and "digit_char d \<noteq> CHR ''-''"
proof -
  from assms have "d \<in> {0, 1, 2, 3, 4, 5, 6, 7, 8, 9}"
    by auto
  then show "isdigit (digit_char d)" and "digit_val (digit_char d) = d"
    and "\<not> c_isspace (digit_char d)" and "digit_char d \<noteq> CHR ''_''"
    and "digit_char d \<noteq> CHR ''+''" and "digit_char d \<noteq> CHR ''-''"
    by (auto simp: digit_char_def isdigit_def digit_val_def c_isspace_def)
qed

lemma str_nat_digits: "list_all isdigit (str_nat n)"
proof (induction n rule: str_nat.induct)
  case (1 n)
  show ?case
  proof (cases "n < 10")
    case True
    then show ?thesis by (simp add: str_nat_lt10 digit_char_facts)
  next
    case False
    then show ?thesis
      using 1 by (simp add: str_nat_ge10 digit_char_facts)
  qed
qed

lemma str_nat_not_Nil: "str_nat n \<noteq> []"
  by (cases "n < 10") (simp_all add: str_nat_lt10 str_nat_ge10)

lemma str_nat_value: "foldl (\<lambda>a c. 10 * a + digit_val c) 0 (str_nat n) = n"
proof (induction n rule: str_nat.induct)
  case (1 n)
  show ?case
  proof (cases "n < 10")
    case True
    then show ?thesis by (simp add: str_nat_lt10 digit_char_facts)
  next
    case False
    then show ?thesis
      using 1 by (simp add: str_nat_ge10 digit_char_facts)
  qed
qed

lemma digits_no_double_underscore:
  "list_all isdigit ds \<Longrightarrow> no_double_underscore ds"
  by (induction ds rule: no_double_underscore.induct) (auto simp: isdigit_def Let_def)

lemma isdigit_facts:
  assumes "isdigit c"
  shows "\<not> c_isspace c" and "c \<noteq> CHR ''_''" and "c \<noteq> CHR ''+''" and "c \<noteq> CHR ''-''"
  using assms by (auto simp: isdigit_def c_isspace_def Let_def)

lemma py_int_digits:
  assumes "list_all isdigit ds" and "ds \<noteq> []"
  shows "py_int ds = Some (int (foldl (\<lambda>a c. 10 * a + digit_val c) 0 ds))"
    and "py_int (CHR ''-'' # ds) = Some (- int (foldl (\<lambda>a c. 10 * a + digit_val c) 0 ds))"
proof -
  from assms obtain c cs where ds: "ds = c # cs"
    by (cases ds) auto
  with assms have c: "isdigit c"
    by simp
  have l: "isdigit (last ds)"
    using assms by (metis last_in_set list_all_iff)
  have tw: "takeWhile (\<lambda>c. isdigit c \<or> c = CHR ''_'') ds = ds"
    using assms(1) by (simp add: takeWhile_eq_all_conv list_all_iff)
  have dw: "dropWhile (\<lambda>c. isdigit c \<or> c = CHR ''_'') ds = []"
    using assms(1) by (simp add: list_all_iff)
  have fl: "filter isdigit ds = ds"
    using assms(1) by (simp add: filter_id_conv list_all_iff)
  have ok: "digits_ok ds"
    using assms isdigit_facts(2) [OF c] isdigit_facts(2) [OF l]
    by (simp add: digits_ok_def ds digits_no_double_underscore del: last.simps)
  have sp: "dropWhile c_isspace ds = ds"
    using isdigit_facts(1) [OF c] by (simp add: ds)
  have hd: "hd ds \<noteq> CHR ''+''" "hd ds \<noteq> CHR ''-''"
    using isdigit_facts(3,4) [OF c] by (simp_all add: ds)
  show "py_int ds = Some (int (foldl (\<lambda>a c. 10 * a + digit_val c) 0 ds))"
    using assms(2) hd by (simp add: py_int_def sp tw dw fl ok Let_def)
  have m: "\<not> c_isspace CHR ''-''"
    by (simp add: c_isspace_def)
  show "py_int (CHR ''-'' # ds) = Some (- int (foldl (\<lambda>a c. 10 * a + digit_val c) 0 ds))"
    by (simp add: py_int_def m tw dw fl ok Let_def)
qed

lemma py_int_str_int: "py_int (str_int i) = Some i"
  using py_int_digits [OF str_nat_digits str_nat_not_Nil]
  by (simp add: str_int_def str_nat_value)

lemma update_cart_qty_default:
  "form (''qty_'' @ key) = None \<Longrightarrow> update_cart_qty form key item = i_qty item"
  by (simp add: update_cart_qty_def form_get_def py_int_str_int)

lemma update_cart_no_fields:
  assumes "cart_ok (get_cart s)" and "\<forall>key. r_form req (''qty_'' @ key) = None"
  shows "update_cart s req =
           Inr (Redirect Cart, flash ''Cart updated.'' ''info'' (save_cart (get_cart s) s))"
proof -
  have "list_all (\<lambda>(key, item). 1 \<le> i_qty item) c \<Longrightarrow>
        List.map_filter
          (\<lambda>(key, item). let qty = update_cart_qty (r_form req) key item
                           in if qty \<le> 0 then None else Some (key, item\<lparr>i_qty := qty\<rparr>)) c = c" for c
    using assms(2) by (induction c) (auto simp: map_filter_simps update_cart_qty_default)
  with assms(1) show ?thesis
    by (simp add: update_cart_ok cart_ok_def)
qed

section \<open>Facts about the total and the checkout\<close>

lemma line_totals_in_range:
  "list_all (\<lambda>(key, item). \<not> int_too_large (i_qty item)) c \<Longrightarrow>
   line_totals fl c = Inr (map (\<lambda>(key, item). mul_int fl (i_price item) (i_qty item)) c)"
  by (induction c) (auto simp: mul_float_int_def)

lemma line_totals_overflow:
  "\<not> list_all (\<lambda>(key, item). \<not> int_too_large (i_qty item)) c \<Longrightarrow>
   line_totals fl c = Inl OverflowError"
  by (induction c) (auto simp: mul_float_int_def split: sum.splits)

lemma cart_total_in_range:
  "list_all (\<lambda>(key, item). \<not> int_too_large (i_qty item)) c \<Longrightarrow>
   cart_total fl c =
     Inr (sum_floats fl (map (\<lambda>(key, item). mul_int fl (i_price item) (i_qty item)) c))"
  using line_totals_in_range [of c fl]
  by (simp add: cart_total_def)

lemma checkout_overflow:
  "get_cart s \<noteq> [] \<Longrightarrow>
   \<not> list_all (\<lambda>(key, item). \<not> int_too_large (i_qty item)) (get_cart s) \<Longrightarrow>
   checkout fl st s req now = Inl OverflowError"
  by (simp add: checkout_def cart_total_def line_totals_overflow Let_def)

lemma small_in_range: "\<bar>n\<bar> \<le> 1000 \<Longrightarrow> \<not> int_too_large n"
proof -
  assume a: "\<bar>n\<bar> \<le> 1000"
  have "(1000::int) < 2 ^ 1024 - 2 ^ 970"
    by simp
  with a have "\<bar>n\<bar> < 2 ^ 1024 - 2 ^ 970"
    by (rule le_less_trans)
  then show ?thesis
    unfolding int_too_large_def by (simp only: not_le)
qed

lemma big_qty_too_large: "int_too_large big_qty"
proof -
  have "(2::int) ^ 1024 \<le> 10 ^ 309"
    by simp
  then have "(2::int) ^ 1024 - 2 ^ 970 \<le> 10 ^ 309"
    by (rule order_trans [rotated]) simp
  then show ?thesis
    unfolding int_too_large_def big_qty_def
    by (simp only: abs_of_nonneg zero_le_power zero_le_numeral)
qed

lemma big_qty_pos: "\<not> big_qty < 1"
  by (simp add: big_qty_def)

lemma huge_qty: "add_to_cart_qty huge = big_qty"
  by (simp add: add_to_cart_qty_def huge_def post_def form_get_def py_int_str_int big_qty_pos)

lemma huge_size: "add_to_cart_size huge = ''M''"
  by (simp add: add_to_cart_size_def huge_def post_def strip_M)

lemma big_basket_cart:
  "get_cart big_basket =
     [(''5-M'', \<lparr>i_id = 5, i_name = ''Embroidered Salwar Kameez'', i_price = 55,
                 i_size = ''M'', i_qty = big_qty\<rparr>)]"
  by (simp add: big_basket_def add_to_cart_def get_kameez kameez_def huge_qty huge_size key_5_M
      new_session_def get_cart_def save_cart_def flash_def Let_def)

lemma big_basket_reachable: "reachable big_basket"
  unfolding big_basket_def
  by (rule reachable.add [OF reachable.new]) (rule surjective_pairing)

lemma big_basket_checkout: "checkout fl st big_basket req now = Inl OverflowError"
  by (rule checkout_overflow) (simp_all add: big_basket_cart big_qty_too_large)

lemma checkout_in_range:
  assumes "get_cart s \<noteq> []"
    and "list_all (\<lambda>(key, item). \<not> int_too_large (i_qty item)) (get_cart s)"
  shows "checkout fl st s req now =
     (let total' = sum_floats fl (map (\<lambda>(key, item). mul_int fl (i_price item) (i_qty item)) (get_cart s))
      in if r_method req = POST
         then
           let name = strip (form_get (r_form req) ''name'' '''');
               email = strip (form_get (r_form req) ''email'' '''');
               phone = strip (form_get (r_form req) ''phone'' '''');
               address = strip (form_get (r_form req) ''address'' '''')
           in if \<not> list_all (\<lambda>v. v \<noteq> []) [name, email, phone, address]
              then Inr (Redirect Checkout, flash ''Please fill in all fields.'' ''danger'' s, st)
              else
                let (order, st') = add_order name email phone address (get_cart s) total' now st
                in Inr (Redirect (Order_success (o_id order)),
                        flash ''Order placed! We will contact you to confirm.'' ''success''
                          (s\<lparr>s_cart := Some []\<rparr>),
                        st')
         else Inr (Render (Checkout_html (get_cart s) total'), s, st))"
  using assms(1) cart_total_in_range [OF assms(2), of fl]
  by (simp add: checkout_def Let_def)

lemma exact_sum:
  assumes "\<forall>x n. mul_int fl x n = x * real_of_int n" and "\<forall>xs. sum_floats fl xs = sum_list xs"
  shows "sum_floats fl (map (\<lambda>(key, item). mul_int fl (i_price item) (i_qty item)) c) =
         (\<Sum>(key, item)\<leftarrow>c. i_price item * real_of_int (i_qty item))"
  using assms by simp

lemma add_to_cart_size_eq:
  "add_to_cart_size req = strip (case r_form req ''size'' of None \<Rightarrow> [] | Some v \<Rightarrow> v)"
  by (simp add: add_to_cart_size_def split: option.splits)

lemma strip_padded_M: "strip '' M '' = ''M''"
  by code_simp

section \<open>Slug derivation\<close>

text \<open>
  C7. \<open>slugify\<close> lowercases its input and replaces every space by a hyphen, every slash
  by a hyphen and every ampersand by the word \<open>and\<close>; every other character of the
  lowercased input is kept. On \<open>Silk & Cotton Saree/Set\<close> it yields
  \<open>silk-and-cotton-saree-set\<close>.
\<close>

theorem slugify_spec:
  "slugify s =
     concat (map (\<lambda>c. if c = CHR '' '' then ''-'' else if c = CHR ''/'' then ''-''
                       else if c = CHR ''&'' then ''and'' else [c]) (lower s))
   \<and> slugify ''Silk & Cotton Saree/Set'' = ''silk-and-cotton-saree-set''"
proof
  show "slugify s =
     concat (map (\<lambda>c. if c = CHR '' '' then ''-'' else if c = CHR ''/'' then ''-''
                       else if c = CHR ''&'' then ''and'' else [c]) (lower s))"
    by (rule slugify_chars)
  show "slugify ''Silk & Cotton Saree/Set'' = ''silk-and-cotton-saree-set''"
    by code_simp
qed

section \<open>Quantities in the cart\<close>

text \<open>
  C4. In every session a visitor can reach, each line item of the cart has a quantity
  of at least 1, and this still holds after \<open>add_to_cart\<close> with any form and after
  \<open>update_cart\<close> with any form. \<open>add_to_cart\<close> takes the quantity 1 when the
  field \<open>qty\<close> is missing, does not parse or parses to less than 1. \<open>update_cart\<close>
  never fails on such a session; a key whose resulting quantity is at most 0 is no longer
  in the cart, every other key stays with the resulting quantity, and no key is added.
\<close>

theorem cart_quantity_invariant:
  assumes "reachable s"
  shows "list_all (\<lambda>(key, item). 1 \<le> i_qty item) (get_cart s)
    \<and> list_all (\<lambda>(key, item). 1 \<le> i_qty item) (get_cart (snd (add_to_cart st s product_id req)))
    \<and> add_to_cart_qty req =
         (case r_form req ''qty'' of
            None \<Rightarrow> 1
          | Some v \<Rightarrow> (case py_int v of None \<Rightarrow> 1 | Some n \<Rightarrow> if n < 1 then 1 else n))
    \<and> (\<exists>s'. update_cart s req = Inr (Redirect Cart, s')
           \<and> list_all (\<lambda>(key, item). 1 \<le> i_qty item) (get_cart s')
           \<and> (\<forall>key. map_of (get_cart s') key =
                 (case map_of (get_cart s) key of
                    None \<Rightarrow> None
                  | Some item \<Rightarrow>
                      if update_cart_qty (r_form req) key item \<le> 0 then None
                      else Some (item\<lparr>i_qty := update_cart_qty (r_form req) key item\<rparr>))))"
proof -
  have ok: "cart_ok (get_cart s)"
    using assms by (rule reachable_ok)
  then have d: "distinct (map fst (get_cart s))"
    by (simp add: cart_ok_def)
  have a: "list_all (\<lambda>(key, item). 1 \<le> i_qty item) (get_cart s)"
    using ok by (simp add: cart_ok_def)
  have "cart_ok (get_cart (snd (add_to_cart st s product_id req)))"
    using ok by (rule add_to_cart_ok) (rule surjective_pairing)
  then have b: "list_all (\<lambda>(key, item). 1 \<le> i_qty item)
                  (get_cart (snd (add_to_cart st s product_id req)))"
    by (simp add: cart_ok_def)
  let ?c' = "List.map_filter
               (\<lambda>(key, item). let qty = update_cart_qty (r_form req) key item
                                in if qty \<le> 0 then None else Some (key, item\<lparr>i_qty := qty\<rparr>))
               (get_cart s)"
  let ?s' = "flash ''Cart updated.'' ''info'' (save_cart ?c' s)"
  have u1: "update_cart s req = Inr (Redirect Cart, ?s')"
    using d by (rule update_cart_ok)
  have g: "get_cart ?s' = ?c'"
    by (simp add: flash_def save_cart_def get_cart_def)
  have u2: "list_all (\<lambda>(key, item). 1 \<le> i_qty item) (get_cart ?s')"
    unfolding g by (rule map_filter_qty)
  have u3: "\<forall>key. map_of (get_cart ?s') key =
                 (case map_of (get_cart s) key of
                    None \<Rightarrow> None
                  | Some item \<Rightarrow>
                      if update_cart_qty (r_form req) key item \<le> 0 then None
                      else Some (item\<lparr>i_qty := update_cart_qty (r_form req) key item\<rparr>))"
    unfolding g using map_filter_map_of [OF d] by blast
  from a b add_to_cart_qty_cases u1 u2 u3 show ?thesis
    by blast
qed

theorem cart_quantity_invariant_witness:
  "reachable (snd (add_to_cart shop new_session 5 (post [(''size'', ''M''), (''qty'', ''-3'')])))
   \<and> get_cart (snd (add_to_cart shop new_session 5 (post [(''size'', ''M''), (''qty'', ''-3'')]))) =
       [(''5-M'', \<lparr>i_id = 5, i_name = ''Embroidered Salwar Kameez'', i_price = 55,
                   i_size = ''M'', i_qty = 1\<rparr>)]
   \<and> list_all (\<lambda>(key, item). 1 \<le> i_qty item)
       (get_cart (snd (add_to_cart shop new_session 5 (post [(''size'', ''M''), (''qty'', ''-3'')]))))
   \<and> add_to_cart_qty (post [(''qty'', ''0'')]) = 1
   \<and> (\<exists>s'. update_cart (snd (add_to_cart shop new_session 5 (post [(''size'', ''M''), (''qty'', ''-3'')])))
             (post [(''qty_5-M'', ''0'')]) = Inr (Redirect Cart, s')
          \<and> map_of (get_cart s') ''5-M'' = None)"
proof -
  let ?s = "snd (add_to_cart shop new_session 5 (post [(''size'', ''M''), (''qty'', ''-3'')]))"
  have r: "reachable ?s"
    by (rule reachable.add [OF reachable.new]) (rule surjective_pairing)
  have c: "get_cart ?s = [(''5-M'', \<lparr>i_id = 5, i_name = ''Embroidered Salwar Kameez'', i_price = 55,
                   i_size = ''M'', i_qty = 1\<rparr>)]"
    by (simp add: add_kameez get_cart_def)
  have q: "update_cart_qty (r_form (post [(''qty_5-M'', ''0'')])) ''5-M''
             \<lparr>i_id = 5, i_name = ''Embroidered Salwar Kameez'', i_price = 55,
              i_size = ''M'', i_qty = 1\<rparr> = 0"
    by (simp add: update_cart_qty_def post_def form_get_def py_int_0)
  have z: "add_to_cart_qty (post [(''qty'', ''0'')]) = 1"
    by (simp add: add_to_cart_qty_def post_def form_get_def py_int_0)
  from cart_quantity_invariant [OF r, of shop 5 "post [(''qty_5-M'', ''0'')]"]
  obtain s' where
    "list_all (\<lambda>(key, item). 1 \<le> i_qty item) (get_cart ?s)"
    "update_cart ?s (post [(''qty_5-M'', ''0'')]) = Inr (Redirect Cart, s')"
    "map_of (get_cart s') ''5-M'' =
       (case map_of (get_cart ?s) ''5-M'' of
          None \<Rightarrow> None
        | Some item \<Rightarrow>
            if update_cart_qty (r_form (post [(''qty_5-M'', ''0'')])) ''5-M'' item \<le> 0 then None
            else Some (item\<lparr>i_qty := update_cart_qty (r_form (post [(''qty_5-M'', ''0'')])) ''5-M'' item\<rparr>))"
    by blast
  with r c q z show ?thesis
    by simp
qed

section \<open>Properties of adding to the cart\<close>

text \<open>
  C5. Adding a product that is in stock stores the line item under the key made of the
  product id, a hyphen and the size, where the size is the form field \<open>size\<close> (empty
  when missing) with the whitespace at both ends removed, or \<open>nosize\<close> when that
  trimmed size is empty. The quantity is the parsed field \<open>qty\<close>, or 1 when the field
  is missing, does not parse or is below 1. The cart then holds exactly one line item
  for that key. When the key was present, its quantity is the old quantity plus the new
  one and the keys of the cart are as before; otherwise a line item with the product's
  id, name and price, the trimmed size and the quantity is appended. The keys of the
  cart are distinct, as those of a \<open>dict\<close> are.
\<close>

theorem add_to_cart_in_stock:
  assumes "get_product st product_id = Some product" and "p_in_stock product"
    and "distinct (map fst (get_cart s))"
  shows "\<exists>s'. add_to_cart st s product_id req = (Redirect Cart, s')
    \<and> (let sz = strip (case r_form req ''size'' of None \<Rightarrow> [] | Some v \<Rightarrow> v);
            qty = (case r_form req ''qty'' of
                     None \<Rightarrow> 1
                   | Some v \<Rightarrow> (case py_int v of None \<Rightarrow> 1 | Some n \<Rightarrow> if n < 1 then 1 else n));
            key = str_nat product_id @ ''-'' @ (if sz = [] then ''nosize'' else sz)
        in length (filter (\<lambda>(k, v). k = key) (get_cart s')) = 1
         \<and> (case map_of (get_cart s) key of
               Some item \<Rightarrow>
                 map_of (get_cart s') key = Some (item\<lparr>i_qty := i_qty item + qty\<rparr>)
                 \<and> map fst (get_cart s') = map fst (get_cart s)
             | None \<Rightarrow>
                 get_cart s' = get_cart s @
                   [(key, \<lparr>i_id = p_id product, i_name = p_name product, i_price = p_price product,
                           i_size = sz, i_qty = qty\<rparr>)]))"
proof -
  let ?key = "cart_key product_id (add_to_cart_size req)"
  have k: "str_nat product_id @ ''-'' @
             (if add_to_cart_size req = [] then ''nosize'' else add_to_cart_size req) = ?key"
    by (simp add: cart_key_def)
  have "\<exists>s'. add_to_cart st s product_id req = (Redirect Cart, s')
    \<and> (let sz = add_to_cart_size req;
            qty = add_to_cart_qty req;
            key = str_nat product_id @ ''-'' @ (if sz = [] then ''nosize'' else sz)
        in length (filter (\<lambda>(k, v). k = key) (get_cart s')) = 1
         \<and> (case map_of (get_cart s) key of
               Some item \<Rightarrow>
                 map_of (get_cart s') key = Some (item\<lparr>i_qty := i_qty item + qty\<rparr>)
                 \<and> map fst (get_cart s') = map fst (get_cart s)
             | None \<Rightarrow>
                 get_cart s' = get_cart s @
                   [(key, \<lparr>i_id = p_id product, i_name = p_name product, i_price = p_price product,
                           i_size = sz, i_qty = qty\<rparr>)]))"
  proof (cases "map_of (get_cart s) ?key")
    case None
    then show ?thesis
      using assms(3) add_to_cart_result [OF assms(1,2), of s req] update_new_key [OF None]
        one_line_per_key [OF assms(3), of ?key]
      unfolding Let_def k by (simp add: get_cart_saved)
  next
    case (Some item)
    then show ?thesis
      using assms(3) add_to_cart_result [OF assms(1,2), of s req] update_old_key [OF Some]
        one_line_per_key [OF assms(3), of ?key]
      unfolding Let_def k by (simp add: get_cart_saved update_conv')
  qed
  then show ?thesis
    unfolding add_to_cart_qty_cases add_to_cart_size_eq .
qed

theorem add_to_cart_in_stock_witness:
  "get_product shop 5 = Some kameez \<and> p_in_stock kameez \<and> distinct (map fst (get_cart basket))
   \<and> (\<exists>s'. add_to_cart shop basket 5 padded_size = (Redirect Cart, s')
         \<and> length (filter (\<lambda>(k, v). k = ''5-M'') (get_cart s')) = 1
         \<and> map_of (get_cart s') ''5-M'' =
             Some \<lparr>i_id = 5, i_name = ''Embroidered Salwar Kameez'', i_price = 55,
                   i_size = ''M'', i_qty = 5\<rparr>
         \<and> map fst (get_cart s') = [''5-M''])
   \<and> (\<exists>s'. add_to_cart shop basket 5 blank_size = (Redirect Cart, s')
         \<and> length (filter (\<lambda>(k, v). k = ''5-nosize'') (get_cart s')) = 1
         \<and> get_cart s' = get_cart basket @
             [(''5-nosize'', \<lparr>i_id = 5, i_name = ''Embroidered Salwar Kameez'', i_price = 55,
                              i_size = [], i_qty = 1\<rparr>)])"
proof -
  have p: "p_in_stock kameez"
    by (simp add: kameez_def)
  have d: "distinct (map fst (get_cart basket))"
    by (simp add: basket_def get_cart_def)
  have c: "get_cart basket = [(''5-M'', \<lparr>i_id = 5, i_name = ''Embroidered Salwar Kameez'', i_price = 55,
                                        i_size = ''M'', i_qty = 2\<rparr>)]"
    by (simp add: basket_def get_cart_def)
  have a: "\<exists>s'. add_to_cart shop basket 5 padded_size = (Redirect Cart, s')
         \<and> length (filter (\<lambda>(k, v). k = ''5-M'') (get_cart s')) = 1
         \<and> map_of (get_cart s') ''5-M'' =
             Some \<lparr>i_id = 5, i_name = ''Embroidered Salwar Kameez'', i_price = 55,
                   i_size = ''M'', i_qty = 5\<rparr>
         \<and> map fst (get_cart s') = [''5-M'']"
    using add_to_cart_in_stock [OF get_kameez p d, of padded_size]
    by (auto simp: padded_size_def post_def strip_padded_M py_int_3 str_eval c Let_def kameez_def)
  have b: "\<exists>s'. add_to_cart shop basket 5 blank_size = (Redirect Cart, s')
         \<and> length (filter (\<lambda>(k, v). k = ''5-nosize'') (get_cart s')) = 1
         \<and> get_cart s' = get_cart basket @
             [(''5-nosize'', \<lparr>i_id = 5, i_name = ''Embroidered Salwar Kameez'', i_price = 55,
                              i_size = [], i_qty = 1\<rparr>)]"
    using add_to_cart_in_stock [OF get_kameez p d, of blank_size]
    by (auto simp: blank_size_def post_def strip_blank str_eval c Let_def kameez_def)
  from get_kameez p d a b show ?thesis
    by (intro conjI)
qed

text \<open>
  C10. When the key of an add is already in the cart, the line item under it keeps its
  id, name, price and size, whatever the product's row says now, and only its quantity
  grows by the quantity added; every other key maps to what it mapped to before, and
  the keys of the cart and their order are unchanged.
\<close>

theorem add_to_cart_existing_key:
  assumes "get_product st product_id = Some product" and "p_in_stock product"
    and "map_of (get_cart s) (cart_key product_id (add_to_cart_size req)) = Some item"
  shows "\<exists>s' item'. add_to_cart st s product_id req = (Redirect Cart, s')
    \<and> map_of (get_cart s') (cart_key product_id (add_to_cart_size req)) = Some item'
    \<and> i_qty item' = i_qty item + add_to_cart_qty req
    \<and> i_id item' = i_id item \<and> i_name item' = i_name item
    \<and> i_price item' = i_price item \<and> i_size item' = i_size item
    \<and> (\<forall>k. k \<noteq> cart_key product_id (add_to_cart_size req) \<longrightarrow>
           map_of (get_cart s') k = map_of (get_cart s) k)
    \<and> map fst (get_cart s') = map fst (get_cart s)"
  using add_to_cart_result [OF assms(1,2), of s req] update_old_key [OF assms(3)] assms(3)
  by (simp add: get_cart_saved update_conv')

theorem add_to_cart_existing_key_witness:
  "get_product shop 5 = Some kameez \<and> p_in_stock kameez
   \<and> map_of (get_cart old_basket) ''5-M'' =
        Some \<lparr>i_id = 5, i_name = ''Salwar Kameez'', i_price = 50, i_size = ''M'', i_qty = 2\<rparr>
   \<and> (\<exists>s'. add_to_cart shop old_basket 5 (post [(''size'', ''M''), (''qty'', ''3'')]) = (Redirect Cart, s')
         \<and> map_of (get_cart s') ''5-M'' =
             Some \<lparr>i_id = 5, i_name = ''Salwar Kameez'', i_price = 50, i_size = ''M'', i_qty = 5\<rparr>
         \<and> map_of (get_cart s') ''7-nosize'' = map_of (get_cart old_basket) ''7-nosize''
         \<and> map fst (get_cart s') = [''5-M'', ''7-nosize''])"
proof -
  have p: "p_in_stock kameez"
    by (simp add: kameez_def)
  have c: "get_cart old_basket =
             [(''5-M'', \<lparr>i_id = 5, i_name = ''Salwar Kameez'', i_price = 50, i_size = ''M'', i_qty = 2\<rparr>),
              (''7-nosize'', \<lparr>i_id = 7, i_name = ''Nokshi Handloom Saree'', i_price = 65,
                            i_size = [], i_qty = 1\<rparr>)]"
    by (simp add: old_basket_def get_cart_def)
  have m: "map_of (get_cart old_basket)
             (cart_key 5 (add_to_cart_size (post [(''size'', ''M''), (''qty'', ''3'')]))) =
           Some \<lparr>i_id = 5, i_name = ''Salwar Kameez'', i_price = 50, i_size = ''M'', i_qty = 2\<rparr>"
    by (simp add: c size_M key_5_M)
  let ?req = "post [(''size'', ''M''), (''qty'', ''3'')]"
  let ?old = "\<lparr>i_id = 5, i_name = ''Salwar Kameez'', i_price = 50, i_size = ''M'', i_qty = 2\<rparr>"
  from add_to_cart_existing_key [OF get_kameez p m]
  obtain s' item' where
    a: "add_to_cart shop old_basket 5 ?req = (Redirect Cart, s')" and
    b: "map_of (get_cart s') (cart_key 5 (add_to_cart_size ?req)) = Some item'" and
    q: "i_qty item' = i_qty ?old + add_to_cart_qty ?req" and
    e: "i_id item' = i_id ?old" "i_name item' = i_name ?old"
       "i_price item' = i_price ?old" "i_size item' = i_size ?old" and
    o: "\<forall>k. k \<noteq> cart_key 5 (add_to_cart_size ?req) \<longrightarrow>
             map_of (get_cart s') k = map_of (get_cart old_basket) k" and
    f: "map fst (get_cart s') = map fst (get_cart old_basket)"
    by blast
  have i: "item' = \<lparr>i_id = 5, i_name = ''Salwar Kameez'', i_price = 50, i_size = ''M'', i_qty = 5\<rparr>"
    using q e by (cases item') (simp add: qty_3)
  have b': "map_of (get_cart s') ''5-M'' = Some item'"
    using b by (simp add: size_M key_5_M)
  have o': "map_of (get_cart s') ''7-nosize'' = map_of (get_cart old_basket) ''7-nosize''"
    using o by (simp add: size_M key_5_M)
  have f': "map fst (get_cart s') = [''5-M'', ''7-nosize'']"
    using f by (simp add: c)
  have m': "map_of (get_cart old_basket) ''5-M'' = Some ?old"
    by (simp add: c)
  from a b' i o' f' m' get_kameez p show ?thesis
    by simp
qed

text \<open>
  C8. Adding a product that exists and is out of stock redirects to the shop listing
  with the flashed message \<open>This item is out of stock.\<close> of category \<open>warning\<close>;
  nothing else of the session changes, so the cart is exactly as before.
\<close>

theorem add_to_cart_out_of_stock:
  assumes "get_product st product_id = Some product" and "\<not> p_in_stock product"
  shows "add_to_cart st s product_id req =
           (Redirect Products_view,
            s\<lparr>s_flashes := s_flashes s @ [(''warning'', ''This item is out of stock.'')]\<rparr>)
    \<and> s_cart (snd (add_to_cart st s product_id req)) = s_cart s
    \<and> get_cart (snd (add_to_cart st s product_id req)) = get_cart s"
  using assms by (simp add: add_to_cart_def flash_def get_cart_def)

theorem add_to_cart_out_of_stock_witness:
  "get_product shop 7 = Some saree \<and> \<not> p_in_stock saree
   \<and> add_to_cart shop basket 7 (post [(''qty'', ''3'')]) =
       (Redirect Products_view,
        basket\<lparr>s_flashes := [(''warning'', ''This item is out of stock.'')]\<rparr>)
   \<and> get_cart (snd (add_to_cart shop basket 7 (post [(''qty'', ''3'')]))) = get_cart basket"
proof -
  have p: "\<not> p_in_stock saree"
    by (simp add: saree_def)
  have f: "s_flashes basket = []"
    by (simp add: basket_def)
  from add_to_cart_out_of_stock [OF get_saree p, of basket "post [(''qty'', ''3'')]"]
  show ?thesis
    using get_saree p by (simp add: f get_cart_def)
qed

section \<open>Properties of the checkout\<close>

text \<open>
  C1, as it holds. A POST to the checkout with a cart that is not empty, in which every
  quantity converts to a float (its magnitude is below \<open>2^1024 - 2^970\<close>), and with the
  four fields \<open>name\<close>, \<open>email\<close>, \<open>phone\<close> and \<open>address\<close> not empty after trimming
  adds exactly one order to the table. Its total price is the value of \<open>sum\<close> on the
  floating-point products of price and quantity, taken in the order of the cart, which is
  the sum of the products as real numbers when that arithmetic does not round. Its status
  is \<open>Pending\<close>, its creation time is the clock reading of the request, it carries the
  trimmed fields and the cart, and the cart of the session is empty afterwards.
\<close>

theorem checkout_success:
  assumes "get_cart s \<noteq> []" and "r_method req = POST"
    and "strip (form_get (r_form req) ''name'' '''') \<noteq> []"
    and "strip (form_get (r_form req) ''email'' '''') \<noteq> []"
    and "strip (form_get (r_form req) ''phone'' '''') \<noteq> []"
    and "strip (form_get (r_form req) ''address'' '''') \<noteq> []"
    and "list_all (\<lambda>(key, item). \<not> int_too_large (i_qty item)) (get_cart s)"
  shows "\<exists>order.
      checkout fl st s req now =
        Inr (Redirect (Order_success (o_id order)),
             flash ''Order placed! We will contact you to confirm.'' ''success'' (s\<lparr>s_cart := Some []\<rparr>),
             st\<lparr>orders := orders st @ [order]\<rparr>)
    \<and> o_total_price order =
        sum_floats fl (map (\<lambda>(key, item). mul_int fl (i_price item) (i_qty item)) (get_cart s))
    \<and> ((\<forall>x n. mul_int fl x n = x * real_of_int n) \<and> (\<forall>xs. sum_floats fl xs = sum_list xs) \<longrightarrow>
         o_total_price order = (\<Sum>(key, item)\<leftarrow>get_cart s. i_price item * real_of_int (i_qty item)))
    \<and> o_status order = ''Pending''
    \<and> o_created_at order = now
    \<and> o_customer_name order = strip (form_get (r_form req) ''name'' '''')
    \<and> o_customer_email order = strip (form_get (r_form req) ''email'' '''')
    \<and> o_customer_phone order = strip (form_get (r_form req) ''phone'' '''')
    \<and> o_address order = strip (form_get (r_form req) ''address'' '''')
    \<and> o_items order = get_cart s
    \<and> get_cart (flash ''Order placed! We will contact you to confirm.'' ''success''
                  (s\<lparr>s_cart := Some []\<rparr>)) = []"
proof -
  let ?total = "sum_floats fl (map (\<lambda>(key, item). mul_int fl (i_price item) (i_qty item)) (get_cart s))"
  let ?order = "fst (add_order (strip (form_get (r_form req) ''name'' ''''))
                       (strip (form_get (r_form req) ''email'' ''''))
                       (strip (form_get (r_form req) ''phone'' ''''))
                       (strip (form_get (r_form req) ''address'' ''''))
                       (get_cart s) ?total now st)"
  have t: "o_total_price ?order = ?total"
    by (simp add: add_order_def Let_def)
  have x: "(\<forall>x n. mul_int fl x n = x * real_of_int n) \<and> (\<forall>xs. sum_floats fl xs = sum_list xs) \<longrightarrow>
         o_total_price ?order = (\<Sum>(key, item)\<leftarrow>get_cart s. i_price item * real_of_int (i_qty item))"
    unfolding t using exact_sum [of fl "get_cart s"] by blast
  have c: "checkout fl st s req now =
        Inr (Redirect (Order_success (o_id ?order)),
             flash ''Order placed! We will contact you to confirm.'' ''success'' (s\<lparr>s_cart := Some []\<rparr>),
             st\<lparr>orders := orders st @ [?order]\<rparr>)"
    using assms(2-6) by (simp add: checkout_in_range [OF assms(1,7)] add_order_def Let_def)
  have r: "o_status ?order = ''Pending'' \<and> o_created_at ?order = now
    \<and> o_customer_name ?order = strip (form_get (r_form req) ''name'' '''')
    \<and> o_customer_email ?order = strip (form_get (r_form req) ''email'' '''')
    \<and> o_customer_phone ?order = strip (form_get (r_form req) ''phone'' '''')
    \<and> o_address ?order = strip (form_get (r_form req) ''address'' '''')
    \<and> o_items ?order = get_cart s"
    by (simp add: add_order_def Let_def)
  have g: "get_cart (flash ''Order placed! We will contact you to confirm.'' ''success''
                  (s\<lparr>s_cart := Some []\<rparr>)) = []"
    by (simp add: get_cart_def flash_def)
  from c t x r g show ?thesis
    by (intro exI [of _ ?order]) (simp only: simp_thms)
qed

theorem checkout_success_witness:
  "get_cart full_basket \<noteq> [] \<and> r_method contact = POST
   \<and> strip (form_get (r_form contact) ''name'' '''') = ''Rahima Begum''
   \<and> strip (form_get (r_form contact) ''email'' '''') = ''rahima@example.org''
   \<and> strip (form_get (r_form contact) ''phone'' '''') = ''01700000000''
   \<and> strip (form_get (r_form contact) ''address'' '''') = ''12 Lake Road, Dhaka''
   \<and> list_all (\<lambda>(key, item). \<not> int_too_large (i_qty item)) (get_cart full_basket)
   \<and> (\<exists>order.
         checkout exact_arith shop full_basket contact 1700000000 =
           Inr (Redirect (Order_success (o_id order)),
                flash ''Order placed! We will contact you to confirm.'' ''success''
                  (full_basket\<lparr>s_cart := Some []\<rparr>),
                shop\<lparr>orders := [order]\<rparr>)
       \<and> o_total_price order = 185
       \<and> o_status order = ''Pending''
       \<and> o_created_at order = 1700000000
       \<and> o_customer_name order = ''Rahima Begum'')"
proof -
  have c: "get_cart full_basket =
             [(''7-nosize'', \<lparr>i_id = 7, i_name = ''Nokshi Handloom Saree'',
                             i_price = 65, i_size = [], i_qty = 2\<rparr>),
              (''5-M'', \<lparr>i_id = 5, i_name = ''Embroidered Salwar Kameez'',
                         i_price = 55, i_size = ''M'', i_qty = 1\<rparr>)]"
    by (simp add: full_basket_def get_cart_def)
  have h1: "get_cart full_basket \<noteq> []"
    by (simp add: c)
  have h2: "r_method contact = POST"
    by (simp add: contact_def post_def)
  have f1: "strip (form_get (r_form contact) ''name'' '''') = ''Rahima Begum''"
    by (simp add: contact_fields)
  have f2: "strip (form_get (r_form contact) ''email'' '''') = ''rahima@example.org''"
    by (simp add: contact_fields)
  have f3: "strip (form_get (r_form contact) ''phone'' '''') = ''01700000000''"
    by (simp add: contact_fields)
  have f4: "strip (form_get (r_form contact) ''address'' '''') = ''12 Lake Road, Dhaka''"
    by (simp add: contact_fields)
  have h7: "list_all (\<lambda>(key, item). \<not> int_too_large (i_qty item)) (get_cart full_basket)"
    by (simp add: c small_in_range)
  have o: "orders shop = []"
    by (simp add: shop_def)
  have e: "(\<forall>x n. mul_int exact_arith x n = x * real_of_int n)
           \<and> (\<forall>xs. sum_floats exact_arith xs = sum_list xs)"
    by (simp add: exact_arith_def)
  from checkout_success [of full_basket contact exact_arith shop 1700000000]
  obtain order where
    "checkout exact_arith shop full_basket contact 1700000000 =
       Inr (Redirect (Order_success (o_id order)),
            flash ''Order placed! We will contact you to confirm.'' ''success''
              (full_basket\<lparr>s_cart := Some []\<rparr>),
            shop\<lparr>orders := [order]\<rparr>)"
    "o_total_price order = 185" "o_status order = ''Pending''"
    "o_created_at order = 1700000000" "o_customer_name order = ''Rahima Begum''"
    using h1 h2 h7 e by (auto simp: f1 f2 f3 f4 c o)
  then show ?thesis
    using h1 h2 f1 f2 f3 f4 h7 by (intro conjI exI [of _ order]) simp_all
qed

text \<open>
  C1 as stated, for every cart that is not empty, fails: a new visitor who adds product 5
  with the quantity \<open>10^309\<close> holds a cart that is not empty, and a POST to the
  checkout with all four fields filled in raises \<open>OverflowError\<close> when the total is
  computed. No order is created and the cart stays. The error does not depend on how the
  arithmetic rounds (\<open>big_basket_checkout\<close>); the theorem is stated for the arithmetic
  of the examples.
\<close>

theorem checkout_success_counterexample:
  "reachable big_basket \<and> get_cart big_basket \<noteq> [] \<and> r_method contact = POST
   \<and> strip (form_get (r_form contact) ''name'' '''') \<noteq> []
   \<and> strip (form_get (r_form contact) ''email'' '''') \<noteq> []
   \<and> strip (form_get (r_form contact) ''phone'' '''') \<noteq> []
   \<and> strip (form_get (r_form contact) ''address'' '''') \<noteq> []
   \<and> checkout exact_arith shop big_basket contact 1700000000 = Inl OverflowError"
  using big_basket_reachable big_basket_checkout [of exact_arith shop contact 1700000000]
  by (simp add: big_basket_cart contact_fields)

text \<open>
  C2, as it holds. With an empty cart the checkout, for either method, redirects to the
  shop listing with the flashed message \<open>Your cart is empty.\<close> of category
  \<open>warning\<close> and renders nothing. A POST with a cart that is not empty, in which every
  quantity converts to a float, and a field that is empty after trimming redirects to the
  checkout with the flashed message \<open>Please fill in all fields.\<close> of category
  \<open>danger\<close>. Whenever the checkout returns a response, the table of orders has changed
  only if the cart is not empty, the method is POST and all four trimmed fields are not
  empty; and if it has not changed, the whole store and the cart of the session are as
  before.
\<close>

theorem checkout_guard:
  "(get_cart s = [] \<longrightarrow>
      checkout fl st s req now =
        Inr (Redirect Products_view, flash ''Your cart is empty.'' ''warning'' s, st))
   \<and> (get_cart s \<noteq> []
       \<and> list_all (\<lambda>(key, item). \<not> int_too_large (i_qty item)) (get_cart s)
       \<and> r_method req = POST
       \<and> (strip (form_get (r_form req) ''name'' '''') = []
          \<or> strip (form_get (r_form req) ''email'' '''') = []
          \<or> strip (form_get (r_form req) ''phone'' '''') = []
          \<or> strip (form_get (r_form req) ''address'' '''') = []) \<longrightarrow>
      checkout fl st s req now =
        Inr (Redirect Checkout, flash ''Please fill in all fields.'' ''danger'' s, st))
   \<and> (\<forall>resp s' st'. checkout fl st s req now = Inr (resp, s', st') \<and> orders st' \<noteq> orders st \<longrightarrow>
        get_cart s \<noteq> [] \<and> r_method req = POST
        \<and> strip (form_get (r_form req) ''name'' '''') \<noteq> []
        \<and> strip (form_get (r_form req) ''email'' '''') \<noteq> []
        \<and> strip (form_get (r_form req) ''phone'' '''') \<noteq> []
        \<and> strip (form_get (r_form req) ''address'' '''') \<noteq> [])
   \<and> (\<forall>resp s' st'. checkout fl st s req now = Inr (resp, s', st') \<and> orders st' = orders st \<longrightarrow>
        st' = st \<and> s_cart s' = s_cart s)
   \<and> s_cart (flash ''Your cart is empty.'' ''warning'' s) = s_cart s
   \<and> s_cart (flash ''Please fill in all fields.'' ''danger'' s) = s_cart s"
proof (intro conjI)
  show "get_cart s = [] \<longrightarrow>
      checkout fl st s req now =
        Inr (Redirect Products_view, flash ''Your cart is empty.'' ''warning'' s, st)"
    by (simp add: checkout_def)
  show "get_cart s \<noteq> []
       \<and> list_all (\<lambda>(key, item). \<not> int_too_large (i_qty item)) (get_cart s)
       \<and> r_method req = POST
       \<and> (strip (form_get (r_form req) ''name'' '''') = []
          \<or> strip (form_get (r_form req) ''email'' '''') = []
          \<or> strip (form_get (r_form req) ''phone'' '''') = []
          \<or> strip (form_get (r_form req) ''address'' '''') = []) \<longrightarrow>
      checkout fl st s req now =
        Inr (Redirect Checkout, flash ''Please fill in all fields.'' ''danger'' s, st)"
    by (auto simp: checkout_in_range Let_def)
  show "\<forall>resp s' st'. checkout fl st s req now = Inr (resp, s', st') \<and> orders st' \<noteq> orders st \<longrightarrow>
        get_cart s \<noteq> [] \<and> r_method req = POST
        \<and> strip (form_get (r_form req) ''name'' '''') \<noteq> []
        \<and> strip (form_get (r_form req) ''email'' '''') \<noteq> []
        \<and> strip (form_get (r_form req) ''phone'' '''') \<noteq> []
        \<and> strip (form_get (r_form req) ''address'' '''') \<noteq> []"
    by (auto simp: checkout_def Let_def split: if_splits sum.splits)
  show "\<forall>resp s' st'. checkout fl st s req now = Inr (resp, s', st') \<and> orders st' = orders st \<longrightarrow>
        st' = st \<and> s_cart s' = s_cart s"
    by (auto simp: checkout_def add_order_def Let_def flash_def split: if_splits sum.splits)
  show "s_cart (flash ''Your cart is empty.'' ''warning'' s) = s_cart s"
    by (simp add: flash_def)
  show "s_cart (flash ''Please fill in all fields.'' ''danger'' s) = s_cart s"
    by (simp add: flash_def)
qed

theorem checkout_guard_witness:
  "get_cart new_session = []
   \<and> checkout exact_arith shop new_session contact 1700000000 =
       Inr (Redirect Products_view, flash ''Your cart is empty.'' ''warning'' new_session, shop)
   \<and> get_cart full_basket \<noteq> []
   \<and> list_all (\<lambda>(key, item). \<not> int_too_large (i_qty item)) (get_cart full_basket)
   \<and> r_method no_phone = POST
   \<and> strip (form_get (r_form no_phone) ''phone'' '''') = []
   \<and> checkout exact_arith shop full_basket no_phone 1700000000 =
       Inr (Redirect Checkout, flash ''Please fill in all fields.'' ''danger'' full_basket, shop)
   \<and> s_cart (flash ''Please fill in all fields.'' ''danger'' full_basket) = s_cart full_basket"
proof -
  have e: "get_cart new_session = []"
    by (simp add: new_session_def get_cart_def)
  have n: "get_cart full_basket \<noteq> []"
    by (simp add: full_basket_def get_cart_def)
  have r: "list_all (\<lambda>(key, item). \<not> int_too_large (i_qty item)) (get_cart full_basket)"
    by (simp add: full_basket_def get_cart_def small_in_range)
  have m: "r_method no_phone = POST"
    by (simp add: no_phone_def post_def)
  have b: "strip (form_get (r_form no_phone) ''phone'' '''') = []"
    by (simp add: contact_fields)
  have g1: "checkout exact_arith shop new_session contact 1700000000 =
       Inr (Redirect Products_view, flash ''Your cart is empty.'' ''warning'' new_session, shop)"
    using checkout_guard [of new_session exact_arith shop contact 1700000000] e by blast
  have g2: "checkout exact_arith shop full_basket no_phone 1700000000 =
       Inr (Redirect Checkout, flash ''Please fill in all fields.'' ''danger'' full_basket, shop)"
    using checkout_guard [of full_basket exact_arith shop no_phone 1700000000] n r m b by blast
  have g3: "s_cart (flash ''Please fill in all fields.'' ''danger'' full_basket) = s_cart full_basket"
    using checkout_guard [of full_basket exact_arith shop no_phone 1700000000] by blast
  from e g1 n r m b g2 g3 show ?thesis
    by (intro conjI)
qed

text \<open>
  C2 as stated, for every POST with a blank field, fails: with the cart of quantity
  \<open>10^309\<close> and a blank phone the total is computed first and raises
  \<open>OverflowError\<close>; there is no flashed message and no redirect, whatever the
  arithmetic (\<open>big_basket_checkout\<close>).
\<close>

theorem checkout_guard_counterexample:
  "get_cart big_basket \<noteq> [] \<and> r_method no_phone = POST
   \<and> strip (form_get (r_form no_phone) ''phone'' '''') = []
   \<and> checkout exact_arith shop big_basket no_phone 1700000000 = Inl OverflowError"
  using big_basket_checkout [of exact_arith shop no_phone 1700000000]
  by (simp add: big_basket_cart contact_fields)

section \<open>Properties of the admin area\<close>

text \<open>
  C6. When the session carries no admin identifier, the dashboard, the product
  management route (for either method and any form) and the stock toggle each return the
  redirect to the login route, with the session and the store exactly as they were:
  nothing is flashed, nothing is stored, no template is rendered. The response and the
  session are the same whatever the store holds, so nothing read from the store reaches
  them.
\<close>

theorem admin_gate:
  assumes "s_admin_id s = None"
  shows "admin_dashboard st s = (Redirect Admin_login, s, st)
    \<and> admin_products float st s req ts = Inr (Redirect Admin_login, s, st)
    \<and> admin_toggle_stock st s product_id = (Redirect Admin_login, s, st)
    \<and> fst (admin_dashboard st' s) = fst (admin_dashboard st s)
    \<and> fst (snd (admin_dashboard st' s)) = fst (snd (admin_dashboard st s))
    \<and> map_sum id (\<lambda>(r, s', x). (r, s')) (admin_products float st' s req ts) =
        map_sum id (\<lambda>(r, s', x). (r, s')) (admin_products float st s req ts)
    \<and> fst (admin_toggle_stock st' s product_id) = fst (admin_toggle_stock st s product_id)
    \<and> fst (snd (admin_toggle_stock st' s product_id)) = fst (snd (admin_toggle_stock st s product_id))"
  using assms
  by (simp add: admin_dashboard_def admin_products_def admin_toggle_stock_def
      require_admin_redirect_def is_admin_def)

theorem admin_gate_witness:
  "s_admin_id new_session = None
   \<and> admin_dashboard shop new_session = (Redirect Admin_login, new_session, shop)
   \<and> admin_products float_65 shop new_session silk_saree 100 =
       Inr (Redirect Admin_login, new_session, shop)
   \<and> admin_products float_65 shop new_session \<lparr>r_method = GET, r_form = Map.empty\<rparr> 100 =
       Inr (Redirect Admin_login, new_session, shop)
   \<and> admin_toggle_stock shop new_session 5 = (Redirect Admin_login, new_session, shop)"
proof -
  have n: "s_admin_id new_session = None"
    by (simp add: new_session_def)
  from admin_gate [OF n, of shop float_65 silk_saree 100 5]
    admin_gate [OF n, of shop float_65 "\<lparr>r_method = GET, r_form = Map.empty\<rparr>" 100 5]
  show ?thesis
    using n by simp
qed

text \<open>
  C9. Two login POSTs from the same session, one with a username that no admin user has
  and one with the username of an admin user whose stored hash the password does not
  verify against, get the same answer: the login form rendered (no redirect), the
  flashed message \<open>Invalid credentials.\<close> of category \<open>danger\<close> appended to the
  session, and the admin identifier of the session untouched. This holds for every
  password check. The time a request takes is not part of the model.
\<close>

theorem admin_login_failure:
  assumes "r_method req1 = POST" and "r_method req2 = POST"
    and "find (\<lambda>u. a_username u = strip (form_get (r_form req1) ''username'' ''''))
           (admin_users st1) = None"
    and "find (\<lambda>u. a_username u = strip (form_get (r_form req2) ''username'' ''''))
           (admin_users st2) = Some user"
    and "\<not> check_password_hash (a_password_hash user)
             (strip (form_get (r_form req2) ''password'' ''''))"
  shows "admin_login check_password_hash st1 s req1 =
           (Render Admin_login_html, flash ''Invalid credentials.'' ''danger'' s, st1)
    \<and> admin_login check_password_hash st2 s req2 =
           (Render Admin_login_html, flash ''Invalid credentials.'' ''danger'' s, st2)
    \<and> fst (admin_login check_password_hash st1 s req1) =
        fst (admin_login check_password_hash st2 s req2)
    \<and> fst (snd (admin_login check_password_hash st1 s req1)) =
        fst (snd (admin_login check_password_hash st2 s req2))
    \<and> s_admin_id (flash ''Invalid credentials.'' ''danger'' s) = s_admin_id s
    \<and> s_flashes (flash ''Invalid credentials.'' ''danger'' s) =
        s_flashes s @ [(''danger'', ''Invalid credentials.'')]"
  using assms
  by (simp add: admin_login_def check_password_def flash_def Let_def)

theorem admin_login_failure_witness:
  "r_method unknown_user = POST \<and> r_method wrong_password = POST
   \<and> find (\<lambda>u. a_username u = strip (form_get (r_form unknown_user) ''username'' ''''))
        (admin_users shop) = None
   \<and> find (\<lambda>u. a_username u = strip (form_get (r_form wrong_password) ''username'' ''''))
        (admin_users shop) =
      Some \<lparr>a_id = 1, a_username = ''admin'', a_password_hash = ''hash-of-nokshi123''\<rparr>
   \<and> \<not> verify ''hash-of-nokshi123'' (strip (form_get (r_form wrong_password) ''password'' ''''))
   \<and> admin_login verify shop new_session unknown_user =
       (Render Admin_login_html, flash ''Invalid credentials.'' ''danger'' new_session, shop)
   \<and> admin_login verify shop new_session wrong_password =
       (Render Admin_login_html, flash ''Invalid credentials.'' ''danger'' new_session, shop)
   \<and> s_admin_id (flash ''Invalid credentials.'' ''danger'' new_session) = None"
proof -
  have m: "r_method unknown_user = POST" "r_method wrong_password = POST"
    by (simp_all add: unknown_user_def wrong_password_def post_def)
  have u1: "find (\<lambda>u. a_username u = strip (form_get (r_form unknown_user) ''username'' ''''))
              (admin_users shop) = None"
    by (simp add: unknown_user_def post_def form_get_def strip_nobody shop_def)
  have u2: "find (\<lambda>u. a_username u = strip (form_get (r_form wrong_password) ''username'' ''''))
              (admin_users shop) =
            Some \<lparr>a_id = 1, a_username = ''admin'', a_password_hash = ''hash-of-nokshi123''\<rparr>"
    by (simp add: wrong_password_def post_def form_get_def strip_admin shop_def)
  have v: "\<not> verify (a_password_hash \<lparr>a_id = 1, a_username = ''admin'', a_password_hash = ''hash-of-nokshi123''\<rparr>)
               (strip (form_get (r_form wrong_password) ''password'' ''''))"
    by (simp add: verify_def wrong_password_def post_def form_get_def strip_letmein)
  have n: "s_admin_id new_session = None"
    by (simp add: new_session_def)
  from admin_login_failure [where check_password_hash = verify and s = new_session, OF m u1 u2 v]
  show ?thesis
    using m u1 u2 v n by simp
qed

text \<open>
  C3. An administrator submits the same valid add-product form three times within one
  second, starting from a table without products. The first product gets the slug
  \<open>silk-saree\<close>, the second the slug \<open>silk-saree-100\<close>; for the third the suffixed
  slug \<open>silk-saree-100\<close> is taken too, the commit raises \<open>IntegrityError\<close> and no
  product is stored.
\<close>

theorem admin_products_same_second:
  "\<exists>r1 s1 st1 r2 s2 st2.
      admin_products float_65 empty_shop admin_session silk_saree 100 = Inr (r1, s1, st1)
    \<and> map p_slug (products st1) = [''silk-saree'']
    \<and> admin_products float_65 st1 s1 silk_saree 100 = Inr (r2, s2, st2)
    \<and> map p_slug (products st2) = [''silk-saree'', ''silk-saree-100'']
    \<and> admin_products float_65 st2 s2 silk_saree 100 = Inl IntegrityError"
proof -
  have m: "r_method silk_saree = POST"
    by (simp add: silk_saree_def post_def)
  have n: "strip (form_get (r_form silk_saree) ''name'' '''') = ''Silk Saree''"
    by (simp add: silk_saree_def post_def form_get_def strip_silk)
  have c: "strip (form_get (r_form silk_saree) ''category'' '''') \<noteq> []"
    by (simp add: silk_saree_def post_def form_get_def strip_saree)
  have p: "float_65 (strip (form_get (r_form silk_saree) ''price'' ''0'')) = Some 65"
    by (simp add: silk_saree_def post_def form_get_def strip_65 float_65_def)
  have a: "is_admin (flash msg cat s) = is_admin s" for msg cat s
    by (simp add: is_admin_def flash_def)
  have a0: "is_admin admin_session"
    by (simp add: is_admin_def admin_session_def)
  note step = admin_products_valid [where float = float_65 and req = silk_saree and ts = 100,
      OF _ m n _ c p, simplified slugify_silk str_int_100 Let_def]
  from step [OF a0, of empty_shop]
  obtain r1 st1 where
    1: "admin_products float_65 empty_shop admin_session silk_saree 100 =
          Inr (r1, flash ''Product added.'' ''success'' admin_session, st1)"
    and s1: "map p_slug (products st1) = [''silk-saree'']"
    by (auto simp: empty_shop_def)
  let ?s1 = "flash ''Product added.'' ''success'' admin_session"
  have a1: "is_admin ?s1"
    using a0 by (simp add: a)
  from step [OF a1, of st1]
  obtain r2 st2 where
    2: "admin_products float_65 st1 ?s1 silk_saree 100 =
          Inr (r2, flash ''Product added.'' ''success'' ?s1, st2)"
    and s2: "map p_slug (products st2) = [''silk-saree'', ''silk-saree-100'']"
    by (auto simp: s1 simp del: set_map)
  let ?s2 = "flash ''Product added.'' ''success'' ?s1"
  have a2: "is_admin ?s2"
    using a1 by (simp add: a)
  from step [OF a2, of st2]
  have 3: "admin_products float_65 st2 ?s2 silk_saree 100 = Inl IntegrityError"
    by (simp add: s2 del: set_map)
  from 1 s1 2 s2 3 show ?thesis
    by (intro exI [of _ r1] exI [of _ ?s1] exI [of _ st1] exI [of _ r2] exI [of _ ?s2]
        exI [of _ st2]) simp
qed

end
